theory Spec2Isabelle
  imports Complex_Main "HOL-Library.Char_ord" "HOL-Library.List_Lexorder"
begin

section \<open>The credit ledger of app/core/credit.py\<close>

text \<open>
  The module \<^verbatim>\<open>app/core/credit.py\<close> holds the orchestrators of a double-entry credit
  ledger (\<^verbatim>\<open>recharge\<close>, \<^verbatim>\<open>reward\<close>, \<^verbatim>\<open>adjustment\<close>, \<^verbatim>\<open>expense_message\<close>,
  \<^verbatim>\<open>update_daily_quota\<close>) and its queries. Each function is embedded below under its own
  name, statement by statement.

  Amounts are Python \<^verbatim>\<open>Decimal\<close>s. They are modelled as rationals: sums, products and
  comparisons of decimals are exact as long as a result fits the context precision
  (28 significant digits), which is the range the ledger works in.

  An exception is a value: a function returns \<open>(Inl err, s')\<close> when it raises, where
  \<open>s'\<close> is the session as it stands at the raise, and \<open>(Inr result, s')\<close> when it
  returns after \<^verbatim>\<open>session.commit()\<close>.
\<close>

subsection \<open>Enumerations and rows\<close>

datatype owner_type = USER | AGENT | PLATFORM

datatype credit_type = PERMANENT | FREE | REWARD

datatype direction = INCOME | EXPENSE

datatype event_type =
  EventType_RECHARGE | EventType_REWARD | EventType_ADJUSTMENT | EventType_MESSAGE

datatype upstream_type = API | EXECUTOR

datatype transaction_type =
  TransactionType_RECHARGE | TransactionType_REWARD | TransactionType_ADJUSTMENT
  | PAY | RECEIVE_FEE_PLATFORM | RECEIVE_FEE_AGENT

datatype credit_debit = CREDIT | DEBIT

text \<open>
  The exceptions. \<open>ValueError\<close> (with its message) and \<open>HTTPException\<close> (with its status
  code) are the two that credit.py raises itself. The others are the error kinds of the
  specification, section 7, for what the helpers of \<^verbatim>\<open>models/credit.py\<close> raise.
\<close>

datatype error =
  ValueError string
  | HTTPException nat
  | DuplicateUpstreamTx
  | InvalidAmount
  | InsufficientFunds
  | AccountNotFound
  | StorageError

text \<open>
  A row of \<^verbatim>\<open>CreditAccountTable\<close>. Its owner (\<^verbatim>\<open>owner_type\<close>, \<^verbatim>\<open>owner_id\<close>) is the key
  of the table below and is not repeated in the row.
\<close>

record credit_account =
  acc_id :: string
  credits :: rat
  free_credits :: rat
  reward_credits :: rat
  free_quota :: rat
  refill_amount :: rat
  last_refill_at :: nat

text \<open>A row of \<^verbatim>\<open>CreditEventTable\<close>; a column the constructor call leaves out is \<open>None\<close>.\<close>

record credit_event =
  ev_id :: string
  event_type :: event_type
  upstream_type :: upstream_type
  upstream_tx_id :: string
  direction :: direction
  account_id :: string
  total_amount :: rat
  credit_type :: credit_type
  balance_after :: rat
  base_amount :: rat
  base_original_amount :: rat
  base_llm_amount :: "rat option"
  fee_platform_amount :: "rat option"
  fee_agent_amount :: "rat option"
  fee_agent_account :: "string option"
  agent_id :: "string option"
  message_id :: "string option"
  start_message_id :: "string option"
  event_note :: "string option"

text \<open>A row of \<^verbatim>\<open>CreditTransactionTable\<close>: one leg of the double entry.\<close>

record credit_transaction =
  tx_id :: string
  tx_account_id :: string
  event_id :: string
  tx_type :: transaction_type
  credit_debit :: credit_debit
  change_amount :: rat
  tx_credit_type :: credit_type

text \<open>
  The account table has a unique index on (\<^verbatim>\<open>owner_type\<close>, \<^verbatim>\<open>owner_id\<close>): a map from
  that key to the row. The session holds the three tables and the number of identifiers
  \<^verbatim>\<open>XID()\<close> has handed out to the orchestrators.
\<close>

type_synonym accounts_table = "owner_type \<times> string \<rightharpoonup> credit_account"

record session =
  accounts :: accounts_table
  events :: "credit_event list"
  transactions :: "credit_transaction list"
  xid_count :: nat

subsection \<open>What credit.py imports\<close>

text \<open>
  credit.py calls six class methods of \<^verbatim>\<open>models/credit.py\<close>, the identifier generator
  \<^verbatim>\<open>XID\<close> of the library epyxid and one configuration value. None of them is defined in
  credit.py, so the orchestrators take them as a parameter: the environment. The account
  methods work on the account table; \<open>check_upstream_tx_id_exists\<close> reads the events and
  either raises (\<open>Some err\<close>) or returns (\<open>None\<close>). \<open>XID E n\<close> is the \<open>n\<close>-th identifier
  generated.
\<close>

record env =
  XID :: "nat \<Rightarrow> string"
  payment_fee_platform_percentage :: rat
  check_upstream_tx_id_exists :: "credit_event list \<Rightarrow> upstream_type \<Rightarrow> string \<Rightarrow> error option"
  income_in_session ::
    "accounts_table \<Rightarrow> owner_type \<Rightarrow> string \<Rightarrow> rat \<Rightarrow> credit_type
      \<Rightarrow> (error + credit_account) \<times> accounts_table"
  deduction_in_session ::
    "accounts_table \<Rightarrow> owner_type \<Rightarrow> string \<Rightarrow> credit_type \<Rightarrow> rat
      \<Rightarrow> (error + credit_account) \<times> accounts_table"
  expense_in_session ::
    "accounts_table \<Rightarrow> owner_type \<Rightarrow> string \<Rightarrow> rat
      \<Rightarrow> (error + credit_account \<times> credit_type) \<times> accounts_table"
  get_or_create_in_session ::
    "accounts_table \<Rightarrow> owner_type \<Rightarrow> string \<Rightarrow> (error + credit_account) \<times> accounts_table"
  get_in_session :: "accounts_table \<Rightarrow> owner_type \<Rightarrow> string \<Rightarrow> credit_account option"

text \<open>
  Modelled from the spec: the constants \<^verbatim>\<open>DEFAULT_PLATFORM_ACCOUNT_*\<close> of
  \<^verbatim>\<open>models/credit.py\<close>, which is not among the sources. Section 6 gives the reserved
  platform owner ids as the strings RECHARGE, REWARD, ADJUSTMENT and FEE.
\<close>

definition DEFAULT_PLATFORM_ACCOUNT_RECHARGE :: string where
  "DEFAULT_PLATFORM_ACCOUNT_RECHARGE = ''RECHARGE''"

definition DEFAULT_PLATFORM_ACCOUNT_REWARD :: string where
  "DEFAULT_PLATFORM_ACCOUNT_REWARD = ''REWARD''"

definition DEFAULT_PLATFORM_ACCOUNT_ADJUSTMENT :: string where
  "DEFAULT_PLATFORM_ACCOUNT_ADJUSTMENT = ''ADJUSTMENT''"

definition DEFAULT_PLATFORM_ACCOUNT_FEE :: string where
  "DEFAULT_PLATFORM_ACCOUNT_FEE = ''FEE''"

subsection \<open>The orchestrators\<close>

text \<open>credit.py, lines 33 to 128.\<close>

definition recharge ::
  "env \<Rightarrow> session \<Rightarrow> string \<Rightarrow> rat \<Rightarrow> string \<Rightarrow> string option
    \<Rightarrow> (error + credit_account) \<times> session" where
  "recharge E s user_id amount upstream_tx_id' note =
    (case check_upstream_tx_id_exists E (events s) API upstream_tx_id' of
      Some err \<Rightarrow> (Inl err, s)
    | None \<Rightarrow>
        if amount \<le> 0 then (Inl (ValueError ''Recharge amount must be positive''), s)
        else
          (case income_in_session E (accounts s) USER user_id amount PERMANENT of
            (Inl err, a1) \<Rightarrow> (Inl err, s\<lparr>accounts := a1\<rparr>)
          | (Inr user_account, a1) \<Rightarrow>
              (case deduction_in_session E a1 PLATFORM DEFAULT_PLATFORM_ACCOUNT_RECHARGE
                      PERMANENT amount of
                (Inl err, a2) \<Rightarrow> (Inl err, s\<lparr>accounts := a2\<rparr>)
              | (Inr platform_account, a2) \<Rightarrow>
                  let event_id' = XID E (xid_count s);
                      event = \<lparr>
                        ev_id = event_id',
                        event_type = EventType_RECHARGE,
                        upstream_type = API,
                        upstream_tx_id = upstream_tx_id',
                        direction = INCOME,
                        account_id = acc_id user_account,
                        total_amount = amount,
                        credit_type = PERMANENT,
                        balance_after = credits user_account + free_credits user_account
                          + reward_credits user_account,
                        base_amount = amount,
                        base_original_amount = amount,
                        base_llm_amount = None,
                        fee_platform_amount = None,
                        fee_agent_amount = None,
                        fee_agent_account = None,
                        agent_id = None,
                        message_id = None,
                        start_message_id = None,
                        event_note = note\<rparr>;
                      user_tx = \<lparr>
                        tx_id = XID E (xid_count s + 1),
                        tx_account_id = acc_id user_account,
                        event_id = event_id',
                        tx_type = TransactionType_RECHARGE,
                        credit_debit = CREDIT,
                        change_amount = amount,
                        tx_credit_type = PERMANENT\<rparr>;
                      platform_tx = \<lparr>
                        tx_id = XID E (xid_count s + 2),
                        tx_account_id = acc_id platform_account,
                        event_id = event_id',
                        tx_type = TransactionType_RECHARGE,
                        credit_debit = DEBIT,
                        change_amount = amount,
                        tx_credit_type = PERMANENT\<rparr>
                  in (Inr user_account,
                      s\<lparr>accounts := a2,
                        events := events s @ [event],
                        transactions := transactions s @ [user_tx, platform_tx],
                        xid_count := xid_count s + 3\<rparr>))))"

text \<open>credit.py, lines 131 to 226.\<close>

definition reward ::
  "env \<Rightarrow> session \<Rightarrow> string \<Rightarrow> rat \<Rightarrow> string \<Rightarrow> string option
    \<Rightarrow> (error + credit_account) \<times> session" where
  "reward E s user_id amount upstream_tx_id' note =
    (case check_upstream_tx_id_exists E (events s) API upstream_tx_id' of
      Some err \<Rightarrow> (Inl err, s)
    | None \<Rightarrow>
        if amount \<le> 0 then (Inl (ValueError ''Reward amount must be positive''), s)
        else
          (case income_in_session E (accounts s) USER user_id amount REWARD of
            (Inl err, a1) \<Rightarrow> (Inl err, s\<lparr>accounts := a1\<rparr>)
          | (Inr user_account, a1) \<Rightarrow>
              (case deduction_in_session E a1 PLATFORM DEFAULT_PLATFORM_ACCOUNT_REWARD
                      REWARD amount of
                (Inl err, a2) \<Rightarrow> (Inl err, s\<lparr>accounts := a2\<rparr>)
              | (Inr platform_account, a2) \<Rightarrow>
                  let event_id' = XID E (xid_count s);
                      event = \<lparr>
                        ev_id = event_id',
                        event_type = EventType_REWARD,
                        upstream_type = API,
                        upstream_tx_id = upstream_tx_id',
                        direction = INCOME,
                        account_id = acc_id user_account,
                        total_amount = amount,
                        credit_type = REWARD,
                        balance_after = credits user_account + free_credits user_account
                          + reward_credits user_account,
                        base_amount = amount,
                        base_original_amount = amount,
                        base_llm_amount = None,
                        fee_platform_amount = None,
                        fee_agent_amount = None,
                        fee_agent_account = None,
                        agent_id = None,
                        message_id = None,
                        start_message_id = None,
                        event_note = note\<rparr>;
                      user_tx = \<lparr>
                        tx_id = XID E (xid_count s + 1),
                        tx_account_id = acc_id user_account,
                        event_id = event_id',
                        tx_type = TransactionType_REWARD,
                        credit_debit = CREDIT,
                        change_amount = amount,
                        tx_credit_type = REWARD\<rparr>;
                      platform_tx = \<lparr>
                        tx_id = XID E (xid_count s + 2),
                        tx_account_id = acc_id platform_account,
                        event_id = event_id',
                        tx_type = TransactionType_REWARD,
                        credit_debit = DEBIT,
                        change_amount = amount,
                        tx_credit_type = REWARD\<rparr>
                  in (Inr user_account,
                      s\<lparr>accounts := a2,
                        events := events s @ [event],
                        transactions := transactions s @ [user_tx, platform_tx],
                        xid_count := xid_count s + 3\<rparr>))))"

text \<open>
  credit.py, lines 229 to 357. \<^verbatim>\<open>not note\<close> holds for the empty string. The user's
  account goes through \<open>income_in_session\<close> for a positive amount and through
  \<open>deduction_in_session\<close> for a negative one; the platform account the other way round.
\<close>

definition adjustment ::
  "env \<Rightarrow> session \<Rightarrow> string \<Rightarrow> credit_type \<Rightarrow> rat \<Rightarrow> string \<Rightarrow> string
    \<Rightarrow> (error + credit_account) \<times> session" where
  "adjustment E s user_id credit_type' amount upstream_tx_id' note =
    (case check_upstream_tx_id_exists E (events s) API upstream_tx_id' of
      Some err \<Rightarrow> (Inl err, s)
    | None \<Rightarrow>
        if amount = 0 then (Inl (ValueError ''Adjustment amount cannot be zero''), s)
        else if note = [] then
          (Inl (ValueError ''Adjustment requires a note explaining the reason''), s)
        else
          let is_income = (amount > 0);
              abs_amount = \<bar>amount\<bar>;
              direction' = (if is_income then INCOME else EXPENSE);
              credit_debit_user = (if is_income then CREDIT else DEBIT);
              credit_debit_platform = (if is_income then DEBIT else CREDIT)
          in
          (case (if is_income
                 then income_in_session E (accounts s) USER user_id abs_amount credit_type'
                 else deduction_in_session E (accounts s) USER user_id credit_type' abs_amount) of
            (Inl err, a1) \<Rightarrow> (Inl err, s\<lparr>accounts := a1\<rparr>)
          | (Inr user_account, a1) \<Rightarrow>
              (case (if is_income
                     then deduction_in_session E a1 PLATFORM DEFAULT_PLATFORM_ACCOUNT_ADJUSTMENT
                            credit_type' abs_amount
                     else income_in_session E a1 PLATFORM DEFAULT_PLATFORM_ACCOUNT_ADJUSTMENT
                            abs_amount credit_type') of
                (Inl err, a2) \<Rightarrow> (Inl err, s\<lparr>accounts := a2\<rparr>)
              | (Inr platform_account, a2) \<Rightarrow>
                  let event_id' = XID E (xid_count s);
                      event = \<lparr>
                        ev_id = event_id',
                        event_type = EventType_ADJUSTMENT,
                        upstream_type = API,
                        upstream_tx_id = upstream_tx_id',
                        direction = direction',
                        account_id = acc_id user_account,
                        total_amount = abs_amount,
                        credit_type = credit_type',
                        balance_after = credits user_account + free_credits user_account
                          + reward_credits user_account,
                        base_amount = abs_amount,
                        base_original_amount = abs_amount,
                        base_llm_amount = None,
                        fee_platform_amount = None,
                        fee_agent_amount = None,
                        fee_agent_account = None,
                        agent_id = None,
                        message_id = None,
                        start_message_id = None,
                        event_note = Some note\<rparr>;
                      user_tx = \<lparr>
                        tx_id = XID E (xid_count s + 1),
                        tx_account_id = acc_id user_account,
                        event_id = event_id',
                        tx_type = TransactionType_ADJUSTMENT,
                        credit_debit = credit_debit_user,
                        change_amount = abs_amount,
                        tx_credit_type = credit_type'\<rparr>;
                      platform_tx = \<lparr>
                        tx_id = XID E (xid_count s + 2),
                        tx_account_id = acc_id platform_account,
                        event_id = event_id',
                        tx_type = TransactionType_ADJUSTMENT,
                        credit_debit = credit_debit_platform,
                        change_amount = abs_amount,
                        tx_credit_type = credit_type'\<rparr>
                  in (Inr user_account,
                      s\<lparr>accounts := a2,
                        events := events s @ [event],
                        transactions := transactions s @ [user_tx, platform_tx],
                        xid_count := xid_count s + 3\<rparr>))))"

text \<open>
  credit.py, lines 360 to 437. The logging call has no effect on the ledger. The row lock
  of \<^verbatim>\<open>for_update=True\<close> is not modelled: one call runs at a time. The \<^verbatim>\<open>UPDATE\<close> of
  lines 417 to 426 rewrites the two quota columns of the row of (USER, user_id) and
  returns the row, or nothing when there is no such row.
\<close>

definition update_daily_quota ::
  "env \<Rightarrow> session \<Rightarrow> string \<Rightarrow> rat option \<Rightarrow> rat option \<Rightarrow> string \<Rightarrow> string
    \<Rightarrow> (error + credit_account) \<times> session" where
  "update_daily_quota E s user_id free_quota' refill_amount' upstream_tx_id' note =
    (if free_quota' = None \<and> refill_amount' = None then
       (Inl (ValueError ''At least one of free_quota or refill_amount must be provided''), s)
     else
       (case get_or_create_in_session E (accounts s) USER user_id of
         (Inl err, a1) \<Rightarrow> (Inl err, s\<lparr>accounts := a1\<rparr>)
       | (Inr user_account, a1) \<Rightarrow>
           (case (case free_quota' of
                    None \<Rightarrow> Inr (free_quota user_account)
                  | Some q \<Rightarrow>
                      if q \<le> 0 then Inl (ValueError ''Daily quota must be positive'')
                      else Inr q) of
             Inl err \<Rightarrow> (Inl err, s\<lparr>accounts := a1\<rparr>)
           | Inr free_quota'' \<Rightarrow>
               (case (case refill_amount' of
                        None \<Rightarrow> Inr (refill_amount user_account)
                      | Some r \<Rightarrow>
                          if r < 0 then Inl (ValueError ''Refill amount cannot be negative'')
                          else Inr r) of
                 Inl err \<Rightarrow> (Inl err, s\<lparr>accounts := a1\<rparr>)
               | Inr refill_amount'' \<Rightarrow>
                   if refill_amount'' > free_quota'' then
                     (Inl (ValueError ''Refill amount cannot exceed daily quota''),
                      s\<lparr>accounts := a1\<rparr>)
                   else if note = [] then
                     (Inl (ValueError ''Quota update requires a note explaining the reason''),
                      s\<lparr>accounts := a1\<rparr>)
                   else
                     (case a1 (USER, user_id) of
                       None \<Rightarrow>
                         (Inl (ValueError ''Failed to update user account''),
                          s\<lparr>accounts := a1\<rparr>)
                     | Some row \<Rightarrow>
                         let result = row\<lparr>free_quota := free_quota'',
                                           refill_amount := refill_amount''\<rparr>
                         in (Inr result,
                             s\<lparr>accounts := a1((USER, user_id) \<mapsto> result)\<rparr>))))))"

text \<open>
  credit.py, lines 597 to 737. \<open>agent_account\<close> is bound in the source only when
  \<open>fee_agent_amount > 0\<close>: here it is \<open>Some\<close> account in that case and \<open>None\<close> otherwise.
\<close>

definition expense_message ::
  "env \<Rightarrow> session \<Rightarrow> string \<Rightarrow> string \<Rightarrow> string \<Rightarrow> string \<Rightarrow> rat \<Rightarrow> rat \<Rightarrow> string
    \<Rightarrow> (error + credit_account) \<times> session" where
  "expense_message E s agent_id' user_id message_id' start_message_id' base_llm_amount'
      agent_fee_percentage agent_owner_id =
    (case check_upstream_tx_id_exists E (events s) EXECUTOR message_id' of
      Some err \<Rightarrow> (Inl err, s)
    | None \<Rightarrow>
        if base_llm_amount' < 0 then
          (Inl (ValueError ''Base LLM amount must be non-negative''), s)
        else
          let base_original_amount' = base_llm_amount';
              base_amount' = base_original_amount';
              fee_platform_amount' = base_amount' * payment_fee_platform_percentage E;
              fee_agent_amount' =
                (if user_id \<noteq> agent_owner_id then base_amount' * agent_fee_percentage else 0);
              total_amount' = base_amount' + fee_platform_amount' + fee_agent_amount'
          in
          (case expense_in_session E (accounts s) USER user_id total_amount' of
            (Inl err, a1) \<Rightarrow> (Inl err, s\<lparr>accounts := a1\<rparr>)
          | (Inr (user_account, credit_type'), a1) \<Rightarrow>
              (case income_in_session E a1 PLATFORM DEFAULT_PLATFORM_ACCOUNT_FEE
                      fee_platform_amount' credit_type' of
                (Inl err, a2) \<Rightarrow> (Inl err, s\<lparr>accounts := a2\<rparr>)
              | (Inr platform_account, a2) \<Rightarrow>
                  (case (if fee_agent_amount' > 0 then
                           (case income_in_session E a2 AGENT agent_id' fee_agent_amount'
                                   credit_type' of
                             (Inl err, a3) \<Rightarrow> (Inl err, a3)
                           | (Inr acct, a3) \<Rightarrow> (Inr (Some acct), a3))
                         else (Inr None, a2)) of
                    (Inl err, a3) \<Rightarrow> (Inl err, s\<lparr>accounts := a3\<rparr>)
                  | (Inr agent_account, a3) \<Rightarrow>
                      let event_id' = XID E (xid_count s);
                          event = \<lparr>
                            ev_id = event_id',
                            event_type = EventType_MESSAGE,
                            upstream_type = EXECUTOR,
                            upstream_tx_id = message_id',
                            direction = EXPENSE,
                            account_id = acc_id user_account,
                            total_amount = total_amount',
                            credit_type = credit_type',
                            balance_after = credits user_account + free_credits user_account
                              + reward_credits user_account,
                            base_amount = base_amount',
                            base_original_amount = base_original_amount',
                            base_llm_amount = Some base_llm_amount',
                            fee_platform_amount = Some fee_platform_amount',
                            fee_agent_amount = Some fee_agent_amount',
                            fee_agent_account =
                              (if fee_agent_amount' > 0 then map_option acc_id agent_account
                               else None),
                            agent_id = Some agent_id',
                            message_id = Some message_id',
                            start_message_id = Some start_message_id',
                            event_note = None\<rparr>;
                          user_tx = \<lparr>
                            tx_id = XID E (xid_count s + 1),
                            tx_account_id = acc_id user_account,
                            event_id = event_id',
                            tx_type = PAY,
                            credit_debit = DEBIT,
                            change_amount = total_amount',
                            tx_credit_type = credit_type'\<rparr>;
                          platform_tx = \<lparr>
                            tx_id = XID E (xid_count s + 2),
                            tx_account_id = acc_id platform_account,
                            event_id = event_id',
                            tx_type = RECEIVE_FEE_PLATFORM,
                            credit_debit = CREDIT,
                            change_amount = fee_platform_amount',
                            tx_credit_type = credit_type'\<rparr>;
                          agent_txs =
                            (if fee_agent_amount' > 0 then
                               (case agent_account of
                                 None \<Rightarrow> []
                               | Some acct \<Rightarrow> [\<lparr>
                                   tx_id = XID E (xid_count s + 3),
                                   tx_account_id = acc_id acct,
                                   event_id = event_id',
                                   tx_type = RECEIVE_FEE_AGENT,
                                   credit_debit = CREDIT,
                                   change_amount = fee_agent_amount',
                                   tx_credit_type = credit_type'\<rparr>])
                             else [])
                      in (Inr user_account,
                          s\<lparr>accounts := a3,
                            events := events s @ [event],
                            transactions := transactions s @ [user_tx, platform_tx] @ agent_txs,
                            xid_count := xid_count s + 3 + length agent_txs\<rparr>)))))"

subsection \<open>The queries\<close>

text \<open>
  Python's \<^verbatim>\<open>xs[:n]\<close>: the first \<open>n\<close> elements, and for a negative \<open>n\<close> all but the
  last \<open>-n\<close>.
\<close>

definition py_slice_to :: "int \<Rightarrow> 'a list \<Rightarrow> 'a list" where
  "py_slice_to n xs =
    (if 0 \<le> n then take (nat n) xs else take (nat (int (length xs) + n)) xs)"

text \<open>
  credit.py, lines 440 to 502. The statement selects the events of the account with the
  given direction, with \<^verbatim>\<open>id < cursor\<close> when \<^verbatim>\<open>cursor\<close> is truthy (neither \<^verbatim>\<open>None\<close>
  nor the empty string) and of the given type when \<^verbatim>\<open>event_type\<close> is given, orders them
  by \<^verbatim>\<open>id\<close> descending and keeps \<^verbatim>\<open>limit + 1\<close> of them. Identifiers are compared as
  strings. A negative \<^verbatim>\<open>LIMIT\<close> is not meaningful SQL: it is read as zero here, and the
  theorem below is about \<open>0 \<le> limit\<close>.
\<close>

definition matching_events ::
  "credit_event list \<Rightarrow> string \<Rightarrow> direction \<Rightarrow> string option \<Rightarrow> event_type option
    \<Rightarrow> credit_event list" where
  "matching_events evs account_id' direction' cursor event_type' =
    filter (\<lambda>e.
      account_id e = account_id'
      \<and> direction e = direction'
      \<and> (case event_type' of None \<Rightarrow> True | Some t \<Rightarrow> event_type e = t)
      \<and> (case cursor of None \<Rightarrow> True | Some c \<Rightarrow> if c \<noteq> [] then ev_id e < c else True)) evs"

definition list_credit_events_by_user ::
  "env \<Rightarrow> session \<Rightarrow> string \<Rightarrow> direction \<Rightarrow> string option \<Rightarrow> int \<Rightarrow> event_type option
    \<Rightarrow> credit_event list \<times> string option \<times> bool" where
  "list_credit_events_by_user E s user_id direction' cursor limit event_type' =
    (case get_in_session E (accounts s) USER user_id of
      None \<Rightarrow> ([], None, False)
    | Some account \<Rightarrow>
        let stmt = rev (sort_key ev_id
                     (matching_events (events s) (acc_id account) direction' cursor event_type'));
            events_data = take (nat (limit + 1)) stmt;
            has_more = (int (length events_data) > limit);
            events_to_return = py_slice_to limit events_data;
            next_cursor =
              (if events_to_return \<noteq> [] then Some (ev_id (last events_to_return)) else None)
        in (events_to_return, next_cursor, has_more))"

text \<open>
  credit.py, lines 561 to 594. \<^verbatim>\<open>session.scalar\<close> gives the first row of the result, or
  \<^verbatim>\<open>None\<close> when there is none; the statement has no \<^verbatim>\<open>ORDER BY\<close>, and rows come in the
  order of the table here. The detail message of the exception is left out.
\<close>

definition fetch_credit_event_by_upstream_tx_id ::
  "session \<Rightarrow> string \<Rightarrow> error + credit_event" where
  "fetch_credit_event_by_upstream_tx_id s upstream_tx_id' =
    (case filter (\<lambda>e. upstream_tx_id e = upstream_tx_id') (events s) of
      [] \<Rightarrow> Inl (HTTPException 404)
    | result # _ \<Rightarrow> Inr result)"

subsection \<open>The helpers of models/credit.py, from the specification\<close>

text \<open>
  Modelled from the spec: the daily refill of section 4.2, which \<^verbatim>\<open>models/credit.py\<close>
  (not among the sources) runs on every locked read of a user account. Time is counted in
  seconds; \<open>now\<close> is the wall clock of the call. If \<open>last_refill_at\<close> is at least one hour
  behind and \<open>refill_amount > 0\<close>, \<open>free_credits\<close> becomes
  \<open>min free_quota (free_credits + refill_amount * floor hours_elapsed)\<close> and
  \<open>last_refill_at\<close> the clock truncated to the hour.
\<close>

definition daily_refill :: "nat \<Rightarrow> owner_type \<Rightarrow> credit_account \<Rightarrow> credit_account" where
  "daily_refill now owner a =
    (if owner = USER \<and> last_refill_at a + 3600 \<le> now \<and> refill_amount a > 0 then
       a\<lparr>free_credits :=
           min (free_quota a)
             (free_credits a + refill_amount a * of_nat ((now - last_refill_at a) div 3600)),
         last_refill_at := now - now mod 3600\<rparr>
     else a)"

text \<open>
  Modelled from the spec: \<^verbatim>\<open>CreditAccount.get_or_create_in_session\<close> of
  \<^verbatim>\<open>models/credit.py\<close>, not among the sources. Section 4.1: it returns the account,
  inserting a zeroed row if absent. The new row's unique id is \<open>new_id owner owner_id\<close>
  (a parameter: what the identifier generator gives at that moment) and its refill
  timestamp is the clock.
\<close>

definition get_or_create ::
  "(owner_type \<Rightarrow> string \<Rightarrow> string) \<Rightarrow> nat \<Rightarrow> accounts_table \<Rightarrow> owner_type \<Rightarrow> string
    \<Rightarrow> credit_account \<times> accounts_table" where
  "get_or_create new_id now accts owner owner_id =
    (case accts (owner, owner_id) of
      Some a \<Rightarrow> (a, accts)
    | None \<Rightarrow>
        let a = \<lparr>acc_id = new_id owner owner_id, credits = 0, free_credits = 0,
                 reward_credits = 0, free_quota = 0, refill_amount = 0,
                 last_refill_at = now\<rparr>
        in (a, accts((owner, owner_id) \<mapsto> a)))"

definition spec_get_or_create_in_session ::
  "(owner_type \<Rightarrow> string \<Rightarrow> string) \<Rightarrow> nat \<Rightarrow> accounts_table \<Rightarrow> owner_type \<Rightarrow> string
    \<Rightarrow> (error + credit_account) \<times> accounts_table" where
  "spec_get_or_create_in_session new_id now accts owner owner_id =
    (case get_or_create new_id now accts owner owner_id of (a, accts') \<Rightarrow> (Inr a, accts'))"

text \<open>
  Modelled from the spec: \<^verbatim>\<open>CreditAccount.get_in_session\<close> of \<^verbatim>\<open>models/credit.py\<close>, not
  among the sources: the account of the owner, or nothing when it does not exist
  (section 4.5, the missing-account policy).
\<close>

definition spec_get_in_session ::
  "accounts_table \<Rightarrow> owner_type \<Rightarrow> string \<Rightarrow> credit_account option" where
  "spec_get_in_session accts owner owner_id = accts (owner, owner_id)"

text \<open>
  The pool a credit type names (section 4.1): PERMANENT is \<open>credits\<close>, FREE is
  \<open>free_credits\<close>, REWARD is \<open>reward_credits\<close>.
\<close>

definition pool :: "credit_type \<Rightarrow> credit_account \<Rightarrow> rat" where
  "pool ct a = (case ct of PERMANENT \<Rightarrow> credits a | FREE \<Rightarrow> free_credits a
                | REWARD \<Rightarrow> reward_credits a)"

definition pool_add :: "credit_type \<Rightarrow> rat \<Rightarrow> credit_account \<Rightarrow> credit_account" where
  "pool_add ct x a =
    (case ct of
      PERMANENT \<Rightarrow> a\<lparr>credits := credits a + x\<rparr>
    | FREE \<Rightarrow> a\<lparr>free_credits := free_credits a + x\<rparr>
    | REWARD \<Rightarrow> a\<lparr>reward_credits := reward_credits a + x\<rparr>)"

text \<open>
  Modelled from the spec: \<^verbatim>\<open>CreditAccount.income_in_session\<close> of \<^verbatim>\<open>models/credit.py\<close>,
  not among the sources. Section 4.1: it fails with InvalidAmount if \<open>amount \<le> 0\<close>;
  otherwise it takes the account (created when absent, section 3.3), performs the daily
  refill if due and adds \<open>amount\<close> to the pool named by the credit type.
\<close>

definition spec_income_in_session ::
  "(owner_type \<Rightarrow> string \<Rightarrow> string) \<Rightarrow> nat \<Rightarrow> accounts_table \<Rightarrow> owner_type \<Rightarrow> string
    \<Rightarrow> rat \<Rightarrow> credit_type \<Rightarrow> (error + credit_account) \<times> accounts_table" where
  "spec_income_in_session new_id now accts owner owner_id amount ct =
    (if amount \<le> 0 then (Inl InvalidAmount, accts)
     else
       (case get_or_create new_id now accts owner owner_id of
         (a, accts') \<Rightarrow>
           let a' = pool_add ct amount (daily_refill now owner a)
           in (Inr a', accts'((owner, owner_id) \<mapsto> a'))))"

text \<open>
  Modelled from the spec: \<^verbatim>\<open>CreditAccount.deduction_in_session\<close> of
  \<^verbatim>\<open>models/credit.py\<close>, not among the sources. Section 4.1: it takes the account,
  performs the daily refill if due and subtracts \<open>amount\<close> from the named pool, without
  falling back across pools. It does not compare the pool with the amount: section 4.4.1
  has recharge take the platform pool below zero through it, and its caller in credit.py
  (lines 279 to 281) says of it "we don't check if the user has enough credits. It can be
  positive or negative". The sentence of section 4.1 that has it fail with
  InsufficientFunds is not followed, since it contradicts both.
\<close>

definition spec_deduction_in_session ::
  "(owner_type \<Rightarrow> string \<Rightarrow> string) \<Rightarrow> nat \<Rightarrow> accounts_table \<Rightarrow> owner_type \<Rightarrow> string
    \<Rightarrow> credit_type \<Rightarrow> rat \<Rightarrow> (error + credit_account) \<times> accounts_table" where
  "spec_deduction_in_session new_id now accts owner owner_id ct amount =
    (case get_or_create new_id now accts owner owner_id of
      (a, accts') \<Rightarrow>
        let a' = pool_add ct (- amount) (daily_refill now owner a)
        in (Inr a', accts'((owner, owner_id) \<mapsto> a')))"

text \<open>
  Modelled from the spec: \<^verbatim>\<open>CreditAccount.expense_in_session\<close> of \<^verbatim>\<open>models/credit.py\<close>,
  not among the sources. Section 4.1, the tri-pool deduction: after the refill it fails
  with InsufficientFunds if the three pools together hold less than \<open>amount\<close>; otherwise
  it consumes \<open>amount\<close> from \<open>free_credits\<close>, then \<open>reward_credits\<close>, then \<open>credits\<close>,
  each pool covering what the one before could not, and returns the credit type of the
  deepest pool that was needed.
\<close>

definition spec_expense_in_session ::
  "(owner_type \<Rightarrow> string \<Rightarrow> string) \<Rightarrow> nat \<Rightarrow> accounts_table \<Rightarrow> owner_type \<Rightarrow> string
    \<Rightarrow> rat \<Rightarrow> (error + credit_account \<times> credit_type) \<times> accounts_table" where
  "spec_expense_in_session new_id now accts owner owner_id amount =
    (case get_or_create new_id now accts owner owner_id of
      (a, accts') \<Rightarrow>
        let b = daily_refill now owner a in
        if credits b + free_credits b + reward_credits b < amount then
          (Inl InsufficientFunds, accts'((owner, owner_id) \<mapsto> b))
        else
          let from_free = min (free_credits b) amount;
              rest1 = amount - from_free;
              from_reward = min (reward_credits b) rest1;
              rest2 = rest1 - from_reward;
              b' = b\<lparr>free_credits := free_credits b - from_free,
                     reward_credits := reward_credits b - from_reward,
                     credits := credits b - rest2\<rparr>;
              ct = (if rest2 > 0 then PERMANENT else if rest1 > 0 then REWARD else FREE)
          in (Inr (b', ct), accts'((owner, owner_id) \<mapsto> b')))"

text \<open>
  Modelled from the spec: \<^verbatim>\<open>CreditEvent.check_upstream_tx_id_exists\<close> of
  \<^verbatim>\<open>models/credit.py\<close>, not among the sources. Section 4.3: it looks for an event with
  the given (\<open>upstream_type\<close>, \<open>upstream_tx_id\<close>) and fails with DuplicateUpstreamTx if
  there is one.
\<close>

definition spec_check_upstream_tx_id_exists ::
  "credit_event list \<Rightarrow> upstream_type \<Rightarrow> string \<Rightarrow> error option" where
  "spec_check_upstream_tx_id_exists evs ut tx =
    (if list_ex (\<lambda>e. upstream_type e = ut \<and> upstream_tx_id e = tx) evs
     then Some DuplicateUpstreamTx else None)"

text \<open>
  The environment of the specification: the helpers above, an identifier generator, the
  configured platform fee and the clock.
\<close>

definition spec_env ::
  "(nat \<Rightarrow> string) \<Rightarrow> rat \<Rightarrow> (owner_type \<Rightarrow> string \<Rightarrow> string) \<Rightarrow> nat \<Rightarrow> env" where
  "spec_env xid fee new_id now = \<lparr>
    XID = xid,
    payment_fee_platform_percentage = fee,
    check_upstream_tx_id_exists = spec_check_upstream_tx_id_exists,
    income_in_session = spec_income_in_session new_id now,
    deduction_in_session = spec_deduction_in_session new_id now,
    expense_in_session = spec_expense_in_session new_id now,
    get_or_create_in_session = spec_get_or_create_in_session new_id now,
    get_in_session = spec_get_in_session\<rparr>"

subsection \<open>Legs of an event\<close>

text \<open>
  The legs of an event are the transactions that carry its id. \<open>leg_sum cd ct\<close> adds up
  the \<open>change_amount\<close> of the legs on side \<open>cd\<close> (CREDIT or DEBIT) with credit type \<open>ct\<close>.
\<close>

definition event_legs :: "session \<Rightarrow> string \<Rightarrow> credit_transaction list" where
  "event_legs s eid = filter (\<lambda>t. event_id t = eid) (transactions s)"

definition leg_sum :: "credit_debit \<Rightarrow> credit_type \<Rightarrow> credit_transaction list \<Rightarrow> rat" where
  "leg_sum cd ct ts =
    sum_list (map change_amount (filter (\<lambda>t. credit_debit t = cd \<and> tx_credit_type t = ct) ts))"

subsection \<open>Concrete ledgers\<close>

text \<open>
  Inputs on which the functions are run: an identifier generator, the ids of new
  accounts, the empty ledger, and the ledger of the specification's third scenario (user
  U1 with \<open>credits = 10\<close>, \<open>free_credits = 3\<close>, \<open>reward_credits = 2\<close>; platform fee 25
  percent).
\<close>

definition example_xid :: "nat \<Rightarrow> string" where
  "example_xid n =
    (if n = 0 then ''id0'' else if n = 1 then ''id1'' else if n = 2 then ''id2'' else ''id3'')"

definition example_account_id :: "owner_type \<Rightarrow> string \<Rightarrow> string" where
  "example_account_id owner owner_id =
    (case owner of USER \<Rightarrow> ''user-'' | AGENT \<Rightarrow> ''agent-'' | PLATFORM \<Rightarrow> ''platform-'')
      @ owner_id"

definition example_env :: env where
  "example_env = spec_env example_xid (1 / 4) example_account_id 0"

definition fresh_session :: session where
  "fresh_session = \<lparr>accounts = Map.empty, events = [], transactions = [], xid_count = 0\<rparr>"

definition scenario3_session :: session where
  "scenario3_session = \<lparr>
    accounts = [(USER, ''U1'') \<mapsto>
      \<lparr>acc_id = ''user-U1'', credits = 10, free_credits = 3, reward_credits = 2,
       free_quota = 0, refill_amount = 0, last_refill_at = 0\<rparr>],
    events = [], transactions = [], xid_count = 0\<rparr>"

text \<open>
  A ledger with three events on the account of U1; the first two share the upstream
  transaction id T1 under different upstream types.
\<close>

definition example_event ::
  "string \<Rightarrow> upstream_type \<Rightarrow> string \<Rightarrow> string \<Rightarrow> direction \<Rightarrow> credit_event" where
  "example_event eid ut tx acc dir = \<lparr>
    ev_id = eid, event_type = EventType_ADJUSTMENT, upstream_type = ut, upstream_tx_id = tx,
    direction = dir, account_id = acc, total_amount = 1, credit_type = PERMANENT,
    balance_after = 1, base_amount = 1, base_original_amount = 1, base_llm_amount = None,
    fee_platform_amount = None, fee_agent_amount = None, fee_agent_account = None,
    agent_id = None, message_id = None, start_message_id = None, event_note = None\<rparr>"

definition listing_session :: session where
  "listing_session = \<lparr>
    accounts = [(USER, ''U1'') \<mapsto>
      \<lparr>acc_id = ''user-U1'', credits = 3, free_credits = 0, reward_credits = 0,
       free_quota = 0, refill_amount = 0, last_refill_at = 0\<rparr>],
    events = [example_event ''e1'' API ''T1'' ''user-U1'' INCOME,
              example_event ''e2'' EXECUTOR ''T1'' ''user-U1'' INCOME,
              example_event ''e3'' API ''T3'' ''user-U1'' INCOME],
    transactions = [], xid_count = 0\<rparr>"

text \<open>
  The value a quota parameter of \<open>update_daily_quota\<close> takes effect with: the one given,
  or the account's existing one when the parameter is omitted.
\<close>

definition effective :: "rat option \<Rightarrow> rat \<Rightarrow> rat" where
  "effective given existing = (case given of None \<Rightarrow> existing | Some v \<Rightarrow> v)"

text \<open>
  What a call of an account helper for one owner does to the account table when it
  stores the account it returns: the owner's row becomes that account, and every other
  row stays as it was.
\<close>

definition writes_own_row ::
  "accounts_table \<Rightarrow> owner_type \<Rightarrow> string \<Rightarrow> credit_account \<Rightarrow> accounts_table \<Rightarrow> bool" where
  "writes_own_row t owner owner_id a t' =
    (t' (owner, owner_id) = Some a \<and> (\<forall>k. k \<noteq> (owner, owner_id) \<longrightarrow> t' k = t k))"

section \<open>Properties\<close>

lemmas run_defs =
  example_env_def spec_env_def spec_income_in_session_def spec_deduction_in_session_def
  spec_expense_in_session_def spec_get_or_create_in_session_def spec_get_in_session_def
  spec_check_upstream_tx_id_exists_def get_or_create_def daily_refill_def pool_add_def
  example_xid_def example_account_id_def DEFAULT_PLATFORM_ACCOUNT_RECHARGE_def
  DEFAULT_PLATFORM_ACCOUNT_REWARD_def DEFAULT_PLATFORM_ACCOUNT_ADJUSTMENT_def
  DEFAULT_PLATFORM_ACCOUNT_FEE_def fresh_session_def scenario3_session_def Let_def

subsection \<open>Double entry\<close>

lemma no_legs_of_fresh_id:
  "eid \<notin> event_id ` set old \<Longrightarrow> filter (\<lambda>t. event_id t = eid \<and> P t) old = []"
  by (auto simp: filter_empty_conv)

lemma recharge_balanced:
  assumes "XID E (xid_count s) \<notin> event_id ` set (transactions s)"
    and "recharge E s user_id amount tx n = (Inr acct, s')"
  shows "\<exists>e. events s' = events s @ [e] \<and> ev_id e = XID E (xid_count s)
      \<and> event_type e = EventType_RECHARGE
      \<and> (\<forall>ct. leg_sum CREDIT ct (event_legs s' (ev_id e))
                = leg_sum DEBIT ct (event_legs s' (ev_id e)))"
  using assms(2) unfolding recharge_def
  by (auto simp: Let_def leg_sum_def event_legs_def no_legs_of_fresh_id[OF assms(1)]
      split: option.splits if_splits prod.splits sum.splits)

lemma reward_balanced:
  assumes "XID E (xid_count s) \<notin> event_id ` set (transactions s)"
    and "reward E s user_id amount tx n = (Inr acct, s')"
  shows "\<exists>e. events s' = events s @ [e] \<and> ev_id e = XID E (xid_count s)
      \<and> event_type e = EventType_REWARD
      \<and> (\<forall>ct. leg_sum CREDIT ct (event_legs s' (ev_id e))
                = leg_sum DEBIT ct (event_legs s' (ev_id e)))"
  using assms(2) unfolding reward_def
  by (auto simp: Let_def leg_sum_def event_legs_def no_legs_of_fresh_id[OF assms(1)]
      split: option.splits if_splits prod.splits sum.splits)

lemma adjustment_balanced:
  assumes "XID E (xid_count s) \<notin> event_id ` set (transactions s)"
    and "adjustment E s user_id ct' amount tx n = (Inr acct, s')"
  shows "\<exists>e. events s' = events s @ [e] \<and> ev_id e = XID E (xid_count s)
      \<and> event_type e = EventType_ADJUSTMENT
      \<and> (\<forall>ct. leg_sum CREDIT ct (event_legs s' (ev_id e))
                = leg_sum DEBIT ct (event_legs s' (ev_id e)))"
  using assms(2) unfolding adjustment_def
  by (auto simp: Let_def leg_sum_def event_legs_def no_legs_of_fresh_id[OF assms(1)]
      split: option.splits if_splits prod.splits sum.splits)

lemma expense_message_legs:
  assumes "XID E (xid_count s) \<notin> event_id ` set (transactions s)"
    and "expense_message E s ag user_id mid smid base pct owner = (Inr acct, s')"
    and "0 \<le> pct"
  shows "\<exists>e. events s' = events s @ [e] \<and> ev_id e = XID E (xid_count s)
      \<and> event_type e = EventType_MESSAGE
      \<and> (\<forall>ct. leg_sum DEBIT ct (event_legs s' (ev_id e))
                = leg_sum CREDIT ct (event_legs s' (ev_id e))
                  + (if ct = credit_type e then base_amount e else 0))"
  using assms(2,3) unfolding expense_message_def
  by (auto simp: Let_def leg_sum_def event_legs_def no_legs_of_fresh_id[OF assms(1)]
      mult_less_0_iff zero_less_mult_iff
      split: option.splits if_splits prod.splits sum.splits)

text \<open>
  C1, as stated, fails. The claim: for every event an orchestrator creates, the CREDIT
  legs and the DEBIT legs have the same sum of \<open>change_amount\<close> for each credit type, a
  MESSAGE event included. On the ledger of scenario 3, \<open>expense_message\<close> with base
  amount 4, platform fee 25 percent and agent fee 50 percent succeeds and writes the
  event \<open>id0\<close> with one DEBIT leg of 7 and two CREDIT legs of 1 and 2, all PERMANENT:
  the CREDIT legs sum to 3 and the DEBIT legs to 7.
\<close>

theorem message_event_unbalanced:
  "fst (expense_message example_env scenario3_session
          ''A1'' ''U1'' ''M1'' ''M0'' 4 (1 / 2) ''U2'')
      = Inr \<lparr>acc_id = ''user-U1'', credits = 8, free_credits = 0, reward_credits = 0,
              free_quota = 0, refill_amount = 0, last_refill_at = 0\<rparr>
   \<and> map ev_id (events (snd (expense_message example_env scenario3_session
          ''A1'' ''U1'' ''M1'' ''M0'' 4 (1 / 2) ''U2''))) = [''id0'']
   \<and> leg_sum CREDIT PERMANENT (event_legs (snd (expense_message example_env
          scenario3_session ''A1'' ''U1'' ''M1'' ''M0'' 4 (1 / 2) ''U2'')) ''id0'') = 3
   \<and> leg_sum DEBIT PERMANENT (event_legs (snd (expense_message example_env
          scenario3_session ''A1'' ''U1'' ''M1'' ''M0'' 4 (1 / 2) ''U2'')) ''id0'') = 7"
  by (simp add: expense_message_def run_defs leg_sum_def event_legs_def)

text \<open>
  C1, amended. Let the identifier the new event gets be carried by no earlier
  transaction. Whenever \<open>recharge\<close>, \<open>reward\<close> or \<open>adjustment\<close> succeeds, it appends one
  event, and for every credit type the CREDIT legs of that event sum to the same
  \<open>change_amount\<close> as its DEBIT legs. Whenever \<open>expense_message\<close> succeeds with an agent
  fee percentage that is not negative, it appends one MESSAGE event, and for every credit
  type the DEBIT legs sum to the CREDIT legs plus, on the event's own credit type, the
  event's \<open>base_amount\<close>: the debit of \<open>total_amount\<close> is matched by credits of the two
  fees only. This holds whatever the helpers of \<open>models/credit.py\<close> do.
\<close>

theorem double_entry_per_event:
  assumes "XID E (xid_count s) \<notin> event_id ` set (transactions s)"
  shows
    "(recharge E s user1 amount1 tx1 note1 = (Inr acct1, s1) \<longrightarrow>
        (\<exists>e. events s1 = events s @ [e] \<and> ev_id e = XID E (xid_count s)
          \<and> event_type e = EventType_RECHARGE
          \<and> (\<forall>ct. leg_sum CREDIT ct (event_legs s1 (ev_id e))
                    = leg_sum DEBIT ct (event_legs s1 (ev_id e)))))
   \<and> (reward E s user2 amount2 tx2 note2 = (Inr acct2, s2) \<longrightarrow>
        (\<exists>e. events s2 = events s @ [e] \<and> ev_id e = XID E (xid_count s)
          \<and> event_type e = EventType_REWARD
          \<and> (\<forall>ct. leg_sum CREDIT ct (event_legs s2 (ev_id e))
                    = leg_sum DEBIT ct (event_legs s2 (ev_id e)))))
   \<and> (adjustment E s user3 ct3 amount3 tx3 note3 = (Inr acct3, s3) \<longrightarrow>
        (\<exists>e. events s3 = events s @ [e] \<and> ev_id e = XID E (xid_count s)
          \<and> event_type e = EventType_ADJUSTMENT
          \<and> (\<forall>ct. leg_sum CREDIT ct (event_legs s3 (ev_id e))
                    = leg_sum DEBIT ct (event_legs s3 (ev_id e)))))
   \<and> (expense_message E s agent4 user4 msg4 start4 base4 pct4 owner4 = (Inr acct4, s4)
        \<and> 0 \<le> pct4 \<longrightarrow>
        (\<exists>e. events s4 = events s @ [e] \<and> ev_id e = XID E (xid_count s)
          \<and> event_type e = EventType_MESSAGE
          \<and> (\<forall>ct. leg_sum DEBIT ct (event_legs s4 (ev_id e))
                    = leg_sum CREDIT ct (event_legs s4 (ev_id e))
                      + (if ct = credit_type e then base_amount e else 0))))"
proof (intro conjI impI)
  assume "recharge E s user1 amount1 tx1 note1 = (Inr acct1, s1)"
  then show "\<exists>e. events s1 = events s @ [e] \<and> ev_id e = XID E (xid_count s)
      \<and> event_type e = EventType_RECHARGE
      \<and> (\<forall>ct. leg_sum CREDIT ct (event_legs s1 (ev_id e))
                = leg_sum DEBIT ct (event_legs s1 (ev_id e)))"
    by (rule recharge_balanced[OF assms])
next
  assume "reward E s user2 amount2 tx2 note2 = (Inr acct2, s2)"
  then show "\<exists>e. events s2 = events s @ [e] \<and> ev_id e = XID E (xid_count s)
      \<and> event_type e = EventType_REWARD
      \<and> (\<forall>ct. leg_sum CREDIT ct (event_legs s2 (ev_id e))
                = leg_sum DEBIT ct (event_legs s2 (ev_id e)))"
    by (rule reward_balanced[OF assms])
next
  assume "adjustment E s user3 ct3 amount3 tx3 note3 = (Inr acct3, s3)"
  then show "\<exists>e. events s3 = events s @ [e] \<and> ev_id e = XID E (xid_count s)
      \<and> event_type e = EventType_ADJUSTMENT
      \<and> (\<forall>ct. leg_sum CREDIT ct (event_legs s3 (ev_id e))
                = leg_sum DEBIT ct (event_legs s3 (ev_id e)))"
    by (rule adjustment_balanced[OF assms])
next
  assume "expense_message E s agent4 user4 msg4 start4 base4 pct4 owner4 = (Inr acct4, s4)
      \<and> 0 \<le> pct4"
  then show "\<exists>e. events s4 = events s @ [e] \<and> ev_id e = XID E (xid_count s)
      \<and> event_type e = EventType_MESSAGE
      \<and> (\<forall>ct. leg_sum DEBIT ct (event_legs s4 (ev_id e))
                = leg_sum CREDIT ct (event_legs s4 (ev_id e))
                  + (if ct = credit_type e then base_amount e else 0))"
    using expense_message_legs[OF assms] by blast
qed

theorem double_entry_per_event_witness:
  "\<exists>acct1 s1 acct2 s2 acct3 s3 acct4 s4.
      recharge example_env scenario3_session ''U1'' 100 ''T1'' None = (Inr acct1, s1)
    \<and> (\<exists>e. events s1 = [e] \<and> event_type e = EventType_RECHARGE
          \<and> (\<forall>ct. leg_sum CREDIT ct (event_legs s1 (ev_id e))
                    = leg_sum DEBIT ct (event_legs s1 (ev_id e))))
    \<and> reward example_env scenario3_session ''U1'' 5 ''T2'' None = (Inr acct2, s2)
    \<and> (\<exists>e. events s2 = [e] \<and> event_type e = EventType_REWARD
          \<and> (\<forall>ct. leg_sum CREDIT ct (event_legs s2 (ev_id e))
                    = leg_sum DEBIT ct (event_legs s2 (ev_id e))))
    \<and> adjustment example_env scenario3_session ''U1'' REWARD (- 2) ''T3'' ''claw back''
        = (Inr acct3, s3)
    \<and> (\<exists>e. events s3 = [e] \<and> event_type e = EventType_ADJUSTMENT
          \<and> (\<forall>ct. leg_sum CREDIT ct (event_legs s3 (ev_id e))
                    = leg_sum DEBIT ct (event_legs s3 (ev_id e))))
    \<and> expense_message example_env scenario3_session ''A1'' ''U1'' ''M1'' ''M0'' 4 (1 / 2) ''U2''
        = (Inr acct4, s4)
    \<and> (\<exists>e. events s4 = [e] \<and> event_type e = EventType_MESSAGE
          \<and> (\<forall>ct. leg_sum DEBIT ct (event_legs s4 (ev_id e))
                    = leg_sum CREDIT ct (event_legs s4 (ev_id e))
                      + (if ct = credit_type e then base_amount e else 0)))"
proof -
  have fresh: "XID example_env (xid_count scenario3_session)
      \<notin> event_id ` set (transactions scenario3_session)"
    by (simp add: scenario3_session_def)
  have ev: "events scenario3_session = []"
    by (simp add: scenario3_session_def)
  obtain acct1 s1 where
    r1: "recharge example_env scenario3_session ''U1'' 100 ''T1'' None = (Inr acct1, s1)"
    by (simp add: recharge_def run_defs)
  obtain acct2 s2 where
    r2: "reward example_env scenario3_session ''U1'' 5 ''T2'' None = (Inr acct2, s2)"
    by (simp add: reward_def run_defs)
  obtain acct3 s3 where
    r3: "adjustment example_env scenario3_session ''U1'' REWARD (- 2) ''T3'' ''claw back''
          = (Inr acct3, s3)"
    by (simp add: adjustment_def run_defs)
  obtain acct4 s4 where
    r4: "expense_message example_env scenario3_session ''A1'' ''U1'' ''M1'' ''M0'' 4 (1 / 2)
          ''U2'' = (Inr acct4, s4)"
    by (simp add: expense_message_def run_defs)
  have pct: "(0::rat) \<le> 1 / 2" by simp
  note all = double_entry_per_event[OF fresh, where ?user1.0 = "''U1''" and ?amount1.0 = 100
      and ?tx1.0 = "''T1''" and ?note1.0 = None and ?acct1.0 = acct1 and ?s1.0 = s1
      and ?user2.0 = "''U1''" and ?amount2.0 = 5 and ?tx2.0 = "''T2''" and ?note2.0 = None
      and ?acct2.0 = acct2 and ?s2.0 = s2
      and ?user3.0 = "''U1''" and ?ct3.0 = REWARD and ?amount3.0 = "- 2" and ?tx3.0 = "''T3''"
      and ?note3.0 = "''claw back''" and ?acct3.0 = acct3 and ?s3.0 = s3
      and ?agent4.0 = "''A1''" and ?user4.0 = "''U1''" and ?msg4.0 = "''M1''"
      and ?start4.0 = "''M0''" and ?base4.0 = 4 and ?pct4.0 = "1 / 2" and ?owner4.0 = "''U2''"
      and ?acct4.0 = acct4 and ?s4.0 = s4]
  from all r1 have c1: "\<exists>e. events s1 = [e] \<and> event_type e = EventType_RECHARGE
          \<and> (\<forall>ct. leg_sum CREDIT ct (event_legs s1 (ev_id e))
                    = leg_sum DEBIT ct (event_legs s1 (ev_id e)))"
    unfolding ev by auto
  from all r2 have c2: "\<exists>e. events s2 = [e] \<and> event_type e = EventType_REWARD
          \<and> (\<forall>ct. leg_sum CREDIT ct (event_legs s2 (ev_id e))
                    = leg_sum DEBIT ct (event_legs s2 (ev_id e)))"
    unfolding ev by auto
  from all r3 have c3: "\<exists>e. events s3 = [e] \<and> event_type e = EventType_ADJUSTMENT
          \<and> (\<forall>ct. leg_sum CREDIT ct (event_legs s3 (ev_id e))
                    = leg_sum DEBIT ct (event_legs s3 (ev_id e)))"
    unfolding ev by auto
  from all r4 pct have c4: "\<exists>e. events s4 = [e] \<and> event_type e = EventType_MESSAGE
          \<and> (\<forall>ct. leg_sum DEBIT ct (event_legs s4 (ev_id e))
                    = leg_sum CREDIT ct (event_legs s4 (ev_id e))
                      + (if ct = credit_type e then base_amount e else 0))"
    unfolding ev by auto
  from r1 c1 r2 c2 r3 c3 r4 c4 show ?thesis by blast
qed

subsection \<open>The fee split of a message\<close>

text \<open>
  C5. Whenever \<open>expense_message\<close> succeeds it appends one event \<open>e\<close> and the legs
  \<open>legs\<close>, where \<open>fee_agent_amount\<close> is \<open>base_llm_amount * agent_fee_percentage\<close> when
  \<open>user_id \<noteq> agent_owner_id\<close> and 0 when they are equal, \<open>total_amount\<close> is
  \<open>base_amount + fee_platform_amount + fee_agent_amount\<close>, and a leg of type
  RECEIVE_FEE_AGENT is among the legs if and only if \<open>fee_agent_amount > 0\<close>; such a leg
  is a CREDIT of \<open>fee_agent_amount\<close> on this event. This holds whatever the helpers of
  \<open>models/credit.py\<close> do.
\<close>

theorem expense_message_fee_split:
  assumes "expense_message E s agent user_id msg start base pct owner = (Inr acct, s')"
  shows "\<exists>e legs fp fa.
      events s' = events s @ [e] \<and> transactions s' = transactions s @ legs
    \<and> base_amount e = base
    \<and> fee_platform_amount e = Some fp \<and> fp = base * payment_fee_platform_percentage E
    \<and> fee_agent_amount e = Some fa
    \<and> fa = (if user_id \<noteq> owner then base * pct else 0)
    \<and> total_amount e = base_amount e + fp + fa
    \<and> ((\<exists>t \<in> set legs. tx_type t = RECEIVE_FEE_AGENT) \<longleftrightarrow> fa > 0)
    \<and> (\<forall>t \<in> set legs. tx_type t = RECEIVE_FEE_AGENT \<longrightarrow>
          credit_debit t = CREDIT \<and> change_amount t = fa \<and> event_id t = ev_id e)"
  using assms unfolding expense_message_def
  by (auto simp: Let_def split: option.splits if_splits prod.splits sum.splits)

theorem expense_message_fee_split_witness:
  "\<exists>acct s' e legs.
      expense_message example_env scenario3_session ''A1'' ''U1'' ''M1'' ''M0'' 4 (1 / 2) ''U2''
        = (Inr acct, s')
    \<and> events s' = [e] \<and> transactions s' = legs
    \<and> fee_platform_amount e = Some 1 \<and> fee_agent_amount e = Some 2 \<and> total_amount e = 7
    \<and> (\<exists>t \<in> set legs. tx_type t = RECEIVE_FEE_AGENT)"
proof -
  obtain acct s' where
    run: "expense_message example_env scenario3_session ''A1'' ''U1'' ''M1'' ''M0'' 4 (1 / 2)
          ''U2'' = (Inr acct, s')"
    by (simp add: expense_message_def run_defs)
  have fee: "payment_fee_platform_percentage example_env = 1 / 4"
    by (simp add: example_env_def spec_env_def)
  have start: "events scenario3_session = [] \<and> transactions scenario3_session = []"
    by (simp add: scenario3_session_def)
  from expense_message_fee_split[OF run] obtain e legs fp fa where
    "events s' = events scenario3_session @ [e]"
    "transactions s' = transactions scenario3_session @ legs"
    "base_amount e = 4" "fee_platform_amount e = Some fp"
    "fp = 4 * payment_fee_platform_percentage example_env"
    "fee_agent_amount e = Some fa" "fa = (if ''U1'' \<noteq> ''U2'' then 4 * (1 / 2) else 0)"
    "total_amount e = base_amount e + fp + fa"
    "(\<exists>t \<in> set legs. tx_type t = RECEIVE_FEE_AGENT) \<longleftrightarrow> fa > 0"
    by blast
  with run fee start show ?thesis by auto
qed

subsection \<open>The idempotency guard\<close>

text \<open>
  C3. Let the guard be the one of section 4.3 of the specification. If an event with
  upstream type API and the given \<open>upstream_tx_id\<close> exists, \<open>recharge\<close>, \<open>reward\<close> and
  \<open>adjustment\<close> raise DuplicateUpstreamTx and the session at the raise is the session
  they started from: no account is touched, no event and no leg added. The same holds
  for \<open>expense_message\<close> when an event with upstream type EXECUTOR and the message id as
  \<open>upstream_tx_id\<close> exists. The other helpers are arbitrary.
\<close>

theorem duplicate_upstream_tx_rejected:
  assumes "check_upstream_tx_id_exists E = spec_check_upstream_tx_id_exists"
  shows
    "((\<exists>e \<in> set (events s). upstream_type e = API \<and> upstream_tx_id e = tx) \<longrightarrow>
        recharge E s user1 amount1 tx note1 = (Inl DuplicateUpstreamTx, s)
      \<and> reward E s user2 amount2 tx note2 = (Inl DuplicateUpstreamTx, s)
      \<and> adjustment E s user3 ct3 amount3 tx note3 = (Inl DuplicateUpstreamTx, s))
   \<and> ((\<exists>e \<in> set (events s). upstream_type e = EXECUTOR \<and> upstream_tx_id e = msg) \<longrightarrow>
        expense_message E s agent4 user4 msg start4 base4 pct4 owner4
          = (Inl DuplicateUpstreamTx, s))"
  using assms
  by (auto simp: recharge_def reward_def adjustment_def expense_message_def
      spec_check_upstream_tx_id_exists_def list_ex_iff)

theorem duplicate_upstream_tx_rejected_witness:
  "recharge example_env listing_session ''U1'' 100 ''T1'' None
      = (Inl DuplicateUpstreamTx, listing_session)
   \<and> reward example_env listing_session ''U1'' 100 ''T1'' None
      = (Inl DuplicateUpstreamTx, listing_session)
   \<and> adjustment example_env listing_session ''U1'' REWARD (- 5) ''T1'' ''claw back''
      = (Inl DuplicateUpstreamTx, listing_session)
   \<and> expense_message example_env listing_session ''A1'' ''U1'' ''T1'' ''M0'' 4 (1 / 2) ''U2''
      = (Inl DuplicateUpstreamTx, listing_session)"
proof -
  have guard: "check_upstream_tx_id_exists example_env = spec_check_upstream_tx_id_exists"
    by (simp add: example_env_def spec_env_def)
  have api: "\<exists>e \<in> set (events listing_session). upstream_type e = API \<and> upstream_tx_id e = ''T1''"
    by (simp add: listing_session_def example_event_def)
  have exe: "\<exists>e \<in> set (events listing_session).
      upstream_type e = EXECUTOR \<and> upstream_tx_id e = ''T1''"
    by (simp add: listing_session_def example_event_def)
  from duplicate_upstream_tx_rejected[OF guard, of listing_session "''T1''" "''U1''" 100 None
      "''U1''" 100 None "''U1''" REWARD "- 5" "''claw back''" "''T1''" "''A1''" "''U1''"
      "''M0''" 4 "1 / 2" "''U2''"] api exe
  show ?thesis by blast
qed

subsection \<open>The daily quota\<close>

text \<open>
  C7. Let \<open>get_or_create_in_session\<close> return the account \<open>ua\<close>. The effective quota and
  refill amount are the parameters given, or the values of \<open>ua\<close> for an omitted one.
  (1) With both parameters omitted, \<open>update_daily_quota\<close> raises before anything else.
  (2) Otherwise, if the effective refill amount exceeds the effective quota, it raises a
  \<open>ValueError\<close> about an amount (the InvalidAmount of the specification): the quota is
  not positive, the refill amount is negative, or the refill amount exceeds the quota.
  (3) With an empty note it raises a \<open>ValueError\<close>. (4) When it succeeds, the effective
  refill amount is at most the effective quota, the returned account is the row of the
  user with exactly \<open>free_quota\<close> and \<open>refill_amount\<close> overwritten, only that row of the
  table changes, and the events and transactions are what they were.
\<close>

theorem update_daily_quota_checks:
  assumes "get_or_create_in_session E (accounts s) USER user_id = (Inr ua, a1)"
  shows
    "(fq = None \<and> ra = None \<longrightarrow>
        update_daily_quota E s user_id fq ra tx note
          = (Inl (ValueError ''At least one of free_quota or refill_amount must be provided''), s))
   \<and> (\<not> (fq = None \<and> ra = None)
        \<and> effective ra (refill_amount ua) > effective fq (free_quota ua) \<longrightarrow>
        (\<exists>m \<in> {''Daily quota must be positive'', ''Refill amount cannot be negative'',
                 ''Refill amount cannot exceed daily quota''}.
          update_daily_quota E s user_id fq ra tx note
            = (Inl (ValueError m), s\<lparr>accounts := a1\<rparr>)))
   \<and> (\<not> (fq = None \<and> ra = None) \<and> note = [] \<longrightarrow>
        (\<exists>m. update_daily_quota E s user_id fq ra tx note
            = (Inl (ValueError m), s\<lparr>accounts := a1\<rparr>)))
   \<and> (update_daily_quota E s user_id fq ra tx note = (Inr acct, s') \<longrightarrow>
        effective ra (refill_amount ua) \<le> effective fq (free_quota ua)
        \<and> refill_amount acct \<le> free_quota acct
        \<and> events s' = events s \<and> transactions s' = transactions s
        \<and> (\<exists>row. a1 (USER, user_id) = Some row
              \<and> acct = row\<lparr>free_quota := effective fq (free_quota ua),
                            refill_amount := effective ra (refill_amount ua)\<rparr>
              \<and> accounts s' = a1((USER, user_id) \<mapsto> acct)))"
  using assms unfolding update_daily_quota_def effective_def
  by (auto simp: Let_def split: option.splits if_splits prod.splits sum.splits)

theorem update_daily_quota_checks_witness:
  "update_daily_quota example_env scenario3_session ''U1'' None None [] ''why''
      = (Inl (ValueError ''At least one of free_quota or refill_amount must be provided''),
         scenario3_session)
   \<and> (\<exists>m s'. update_daily_quota example_env scenario3_session ''U1'' (Some 10) (Some 20) []
          ''why'' = (Inl (ValueError m), s'))
   \<and> (\<exists>m s'. update_daily_quota example_env scenario3_session ''U1'' (Some 10) (Some 5) []
          [] = (Inl (ValueError m), s'))
   \<and> (\<exists>acct s'. update_daily_quota example_env scenario3_session ''U1'' (Some 10) (Some 5) []
          ''why'' = (Inr acct, s')
        \<and> refill_amount acct \<le> free_quota acct
        \<and> events s' = events scenario3_session
        \<and> transactions s' = transactions scenario3_session)"
proof -
  obtain ua a1 where goc: "get_or_create_in_session example_env (accounts scenario3_session)
      USER ''U1'' = (Inr ua, a1)"
    and ua: "free_quota ua = 0 \<and> refill_amount ua = 0"
    by (simp add: run_defs)
  note checks = update_daily_quota_checks[OF goc]
  have c1: "update_daily_quota example_env scenario3_session ''U1'' None None [] ''why''
      = (Inl (ValueError ''At least one of free_quota or refill_amount must be provided''),
         scenario3_session)"
    using checks[of None None "[]" "''why''"] by simp
  have c2: "\<exists>m s'. update_daily_quota example_env scenario3_session ''U1'' (Some 10) (Some 20)
      [] ''why'' = (Inl (ValueError m), s')"
  proof -
    have "\<not> (Some (10::rat) = None \<and> Some (20::rat) = None)
        \<and> effective (Some 20) (refill_amount ua) > effective (Some 10) (free_quota ua)"
      by (simp add: effective_def)
    with checks[of "Some 10" "Some 20" "[]" "''why''"] show ?thesis by blast
  qed
  have c3: "\<exists>m s'. update_daily_quota example_env scenario3_session ''U1'' (Some 10) (Some 5)
      [] [] = (Inl (ValueError m), s')"
  proof -
    have "\<not> (Some (10::rat) = None \<and> Some (5::rat) = None) \<and> ([]::string) = []"
      by simp
    with checks[of "Some 10" "Some 5" "[]" "[]"] show ?thesis by blast
  qed
  obtain acct s' where run: "update_daily_quota example_env scenario3_session ''U1'' (Some 10)
      (Some 5) [] ''why'' = (Inr acct, s')"
    by (simp add: update_daily_quota_def run_defs)
  have c4: "refill_amount acct \<le> free_quota acct \<and> events s' = events scenario3_session
      \<and> transactions s' = transactions scenario3_session"
    using checks[of "Some 10" "Some 5" "[]" "''why''" acct s'] run by blast
  from c1 c2 c3 c4 run show ?thesis by blast
qed

subsection \<open>The balance an event records\<close>

lemma recharge_balance_after:
  assumes inc: "\<forall>t owner oid x c a t'. income_in_session E t owner oid x c = (Inr a, t')
      \<longrightarrow> writes_own_row t owner oid a t'"
    and ded: "\<forall>t owner oid c x a t'. deduction_in_session E t owner oid c x = (Inr a, t')
      \<longrightarrow> writes_own_row t owner oid a t'"
    and run: "recharge E s user1 amount1 tx1 note1 = (Inr acct1, s1)"
  shows "\<exists>e a1. events s1 = events s @ [e]
        \<and> income_in_session E (accounts s) USER user1 amount1 PERMANENT = (Inr acct1, a1)
        \<and> accounts s1 (USER, user1) = Some acct1
        \<and> account_id e = acc_id acct1
        \<and> balance_after e = credits acct1 + free_credits acct1 + reward_credits acct1"
proof -
  obtain r a1 where i: "income_in_session E (accounts s) USER user1 amount1 PERMANENT = (r, a1)"
    by (cases "income_in_session E (accounts s) USER user1 amount1 PERMANENT")
  obtain r2 a2 where d: "deduction_in_session E a1 PLATFORM DEFAULT_PLATFORM_ACCOUNT_RECHARGE
      PERMANENT amount1 = (r2, a2)"
    by (cases "deduction_in_session E a1 PLATFORM DEFAULT_PLATFORM_ACCOUNT_RECHARGE
      PERMANENT amount1")
  from run i d obtain pa where r: "r = Inr acct1" and r2: "r2 = Inr pa"
    unfolding recharge_def
    by (cases r; cases r2) (auto simp: Let_def split: option.splits if_splits)
  from inc i r have w1: "writes_own_row (accounts s) USER user1 acct1 a1" by blast
  from ded d r2 have w2: "writes_own_row a1 PLATFORM DEFAULT_PLATFORM_ACCOUNT_RECHARGE pa a2"
    by blast
  from w1 w2 have row: "a2 (USER, user1) = Some acct1"
    by (simp add: writes_own_row_def)
  from run i d r r2 row show ?thesis
    unfolding recharge_def
    by (auto simp: Let_def split: option.splits if_splits)
qed

lemma reward_balance_after:
  assumes inc: "\<forall>t owner oid x c a t'. income_in_session E t owner oid x c = (Inr a, t')
      \<longrightarrow> writes_own_row t owner oid a t'"
    and ded: "\<forall>t owner oid c x a t'. deduction_in_session E t owner oid c x = (Inr a, t')
      \<longrightarrow> writes_own_row t owner oid a t'"
    and run: "reward E s user2 amount2 tx2 note2 = (Inr acct2, s2)"
  shows "\<exists>e a1. events s2 = events s @ [e]
        \<and> income_in_session E (accounts s) USER user2 amount2 REWARD = (Inr acct2, a1)
        \<and> accounts s2 (USER, user2) = Some acct2
        \<and> account_id e = acc_id acct2
        \<and> balance_after e = credits acct2 + free_credits acct2 + reward_credits acct2"
proof -
  obtain r a1 where i: "income_in_session E (accounts s) USER user2 amount2 REWARD = (r, a1)"
    by (cases "income_in_session E (accounts s) USER user2 amount2 REWARD")
  obtain r2 a2 where d: "deduction_in_session E a1 PLATFORM DEFAULT_PLATFORM_ACCOUNT_REWARD
      REWARD amount2 = (r2, a2)"
    by (cases "deduction_in_session E a1 PLATFORM DEFAULT_PLATFORM_ACCOUNT_REWARD
      REWARD amount2")
  from run i d obtain pa where r: "r = Inr acct2" and r2: "r2 = Inr pa"
    unfolding reward_def
    by (cases r; cases r2) (auto simp: Let_def split: option.splits if_splits)
  from inc i r have w1: "writes_own_row (accounts s) USER user2 acct2 a1" by blast
  from ded d r2 have w2: "writes_own_row a1 PLATFORM DEFAULT_PLATFORM_ACCOUNT_REWARD pa a2"
    by blast
  from w1 w2 have row: "a2 (USER, user2) = Some acct2"
    by (simp add: writes_own_row_def)
  from run i d r r2 row show ?thesis
    unfolding reward_def
    by (auto simp: Let_def split: option.splits if_splits)
qed

lemma adjustment_balance_after:
  assumes inc: "\<forall>t owner oid x c a t'. income_in_session E t owner oid x c = (Inr a, t')
      \<longrightarrow> writes_own_row t owner oid a t'"
    and ded: "\<forall>t owner oid c x a t'. deduction_in_session E t owner oid c x = (Inr a, t')
      \<longrightarrow> writes_own_row t owner oid a t'"
    and run: "adjustment E s user3 ct3 amount3 tx3 note3 = (Inr acct3, s3)"
  shows "\<exists>e a1. events s3 = events s @ [e]
        \<and> (if amount3 > 0
            then income_in_session E (accounts s) USER user3 \<bar>amount3\<bar> ct3
            else deduction_in_session E (accounts s) USER user3 ct3 \<bar>amount3\<bar>) = (Inr acct3, a1)
        \<and> accounts s3 (USER, user3) = Some acct3
        \<and> account_id e = acc_id acct3
        \<and> balance_after e = credits acct3 + free_credits acct3 + reward_credits acct3"
proof -
  obtain r a1 where i: "(if amount3 > 0
            then income_in_session E (accounts s) USER user3 \<bar>amount3\<bar> ct3
            else deduction_in_session E (accounts s) USER user3 ct3 \<bar>amount3\<bar>) = (r, a1)"
    by (cases "if amount3 > 0
            then income_in_session E (accounts s) USER user3 \<bar>amount3\<bar> ct3
            else deduction_in_session E (accounts s) USER user3 ct3 \<bar>amount3\<bar>")
  obtain r2 a2 where d: "(if amount3 > 0
        then deduction_in_session E a1 PLATFORM DEFAULT_PLATFORM_ACCOUNT_ADJUSTMENT ct3 \<bar>amount3\<bar>
        else income_in_session E a1 PLATFORM DEFAULT_PLATFORM_ACCOUNT_ADJUSTMENT \<bar>amount3\<bar> ct3)
      = (r2, a2)"
    by (cases "if amount3 > 0
        then deduction_in_session E a1 PLATFORM DEFAULT_PLATFORM_ACCOUNT_ADJUSTMENT ct3 \<bar>amount3\<bar>
        else income_in_session E a1 PLATFORM DEFAULT_PLATFORM_ACCOUNT_ADJUSTMENT \<bar>amount3\<bar> ct3")
  from run i d obtain pa where r: "r = Inr acct3" and r2: "r2 = Inr pa"
    unfolding adjustment_def Let_def
    by (cases r; cases r2) (auto split: option.splits if_splits)
  from inc ded i r have w1: "writes_own_row (accounts s) USER user3 acct3 a1"
    by (cases "amount3 > 0") auto
  from inc ded d r2 have w2: "writes_own_row a1 PLATFORM DEFAULT_PLATFORM_ACCOUNT_ADJUSTMENT pa a2"
    by (cases "amount3 > 0") auto
  from w1 w2 have row: "a2 (USER, user3) = Some acct3"
    by (simp add: writes_own_row_def)
  from run i d r r2 row show ?thesis
    unfolding adjustment_def Let_def
    by (auto split: option.splits if_splits)
qed

lemma expense_message_balance_after:
  assumes inc: "\<forall>t owner oid x c a t'. income_in_session E t owner oid x c = (Inr a, t')
      \<longrightarrow> writes_own_row t owner oid a t'"
    and exp: "\<forall>t owner oid x a c t'. expense_in_session E t owner oid x = (Inr (a, c), t')
      \<longrightarrow> writes_own_row t owner oid a t'"
    and run: "expense_message E s agent4 user4 msg4 start4 base4 pct4 owner4 = (Inr acct4, s4)"
  shows "\<exists>e a1 ct. events s4 = events s @ [e]
        \<and> expense_in_session E (accounts s) USER user4 (total_amount e) = (Inr (acct4, ct), a1)
        \<and> accounts s4 (USER, user4) = Some acct4
        \<and> account_id e = acc_id acct4
        \<and> balance_after e = credits acct4 + free_credits acct4 + reward_credits acct4"
proof -
  let ?fee = "if user4 \<noteq> owner4 then base4 * pct4 else 0"
  let ?total = "base4 + base4 * payment_fee_platform_percentage E + ?fee"
  obtain r a1 where x: "expense_in_session E (accounts s) USER user4 ?total = (r, a1)"
    by (cases "expense_in_session E (accounts s) USER user4 ?total")
  from run x obtain ct where r: "r = Inr (acct4, ct)"
    unfolding expense_message_def Let_def
    by (cases r) (auto split: option.splits if_splits prod.splits sum.splits)
  obtain r2 a2 where p: "income_in_session E a1 PLATFORM DEFAULT_PLATFORM_ACCOUNT_FEE
      (base4 * payment_fee_platform_percentage E) ct = (r2, a2)"
    by (cases "income_in_session E a1 PLATFORM DEFAULT_PLATFORM_ACCOUNT_FEE
      (base4 * payment_fee_platform_percentage E) ct")
  from run x r p obtain pa where r2: "r2 = Inr pa"
    unfolding expense_message_def Let_def
    by (cases r2) (auto split: option.splits if_splits prod.splits sum.splits)
  from exp x r have w1: "writes_own_row (accounts s) USER user4 acct4 a1" by blast
  from inc p r2 have w2: "writes_own_row a1 PLATFORM DEFAULT_PLATFORM_ACCOUNT_FEE pa a2"
    by blast
  from w1 w2 have row2: "a2 (USER, user4) = Some acct4"
    by (simp add: writes_own_row_def)
  show ?thesis
  proof (cases "?fee > 0")
    case False
    with run x r p r2 row2 show ?thesis
      unfolding expense_message_def Let_def
      by (auto split: option.splits if_splits)
  next
    case True
    obtain r3 a3 where g: "income_in_session E a2 AGENT agent4 ?fee ct = (r3, a3)"
      by (cases "income_in_session E a2 AGENT agent4 ?fee ct")
    from run x r p r2 g True obtain aa where r3: "r3 = Inr aa"
      unfolding expense_message_def Let_def
      by (cases r3) (auto split: option.splits if_splits)
    from inc g r3 have w3: "writes_own_row a2 AGENT agent4 aa a3" by blast
    from w3 row2 have row3: "a3 (USER, user4) = Some acct4"
      by (simp add: writes_own_row_def)
    from run x r p r2 g r3 True row3 show ?thesis
      unfolding expense_message_def Let_def
      by (auto split: option.splits if_splits)
  qed
qed

lemma spec_income_writes_own_row:
  "spec_income_in_session new_id now t owner oid x c = (Inr a, t')
    \<Longrightarrow> writes_own_row t owner oid a t'"
  by (auto simp: spec_income_in_session_def get_or_create_def writes_own_row_def Let_def
      split: option.splits if_splits)

lemma spec_deduction_writes_own_row:
  "spec_deduction_in_session new_id now t owner oid c x = (Inr a, t')
    \<Longrightarrow> writes_own_row t owner oid a t'"
  by (auto simp: spec_deduction_in_session_def get_or_create_def writes_own_row_def Let_def
      split: option.splits if_splits)

lemma spec_expense_writes_own_row:
  "spec_expense_in_session new_id now t owner oid x = (Inr (a, c), t')
    \<Longrightarrow> writes_own_row t owner oid a t'"
  by (auto simp: spec_expense_in_session_def get_or_create_def writes_own_row_def Let_def
      split: option.splits if_splits)

text \<open>
  C8. Let each account helper, when it succeeds, store the account it returns in the row
  of the owner it was called for and leave every other row as it was. Whenever
  \<open>recharge\<close>, \<open>reward\<close>, \<open>adjustment\<close> or \<open>expense_message\<close> succeeds, it appends one
  event; the account it returns is the one the helper that changed the user's account
  gave back (\<open>income_in_session\<close>, \<open>deduction_in_session\<close> for a negative adjustment,
  \<open>expense_in_session\<close> for a message); that account is the user's row in the account
  table of the resulting session, the later changes to the platform and agent accounts
  notwithstanding; the event's \<open>account_id\<close> is the id of that row and its
  \<open>balance_after\<close> is \<open>credits + free_credits + reward_credits\<close> of that row.
\<close>

theorem balance_after_of_user_account:
  assumes "\<forall>t owner oid x c a t'. income_in_session E t owner oid x c = (Inr a, t')
      \<longrightarrow> writes_own_row t owner oid a t'"
    and "\<forall>t owner oid c x a t'. deduction_in_session E t owner oid c x = (Inr a, t')
      \<longrightarrow> writes_own_row t owner oid a t'"
    and "\<forall>t owner oid x a c t'. expense_in_session E t owner oid x = (Inr (a, c), t')
      \<longrightarrow> writes_own_row t owner oid a t'"
  shows
   "(recharge E s user1 amount1 tx1 note1 = (Inr acct1, s1) \<longrightarrow>
      (\<exists>e a1. events s1 = events s @ [e]
        \<and> income_in_session E (accounts s) USER user1 amount1 PERMANENT = (Inr acct1, a1)
        \<and> accounts s1 (USER, user1) = Some acct1
        \<and> account_id e = acc_id acct1
        \<and> balance_after e = credits acct1 + free_credits acct1 + reward_credits acct1))
 \<and> (reward E s user2 amount2 tx2 note2 = (Inr acct2, s2) \<longrightarrow>
      (\<exists>e a1. events s2 = events s @ [e]
        \<and> income_in_session E (accounts s) USER user2 amount2 REWARD = (Inr acct2, a1)
        \<and> accounts s2 (USER, user2) = Some acct2
        \<and> account_id e = acc_id acct2
        \<and> balance_after e = credits acct2 + free_credits acct2 + reward_credits acct2))
 \<and> (adjustment E s user3 ct3 amount3 tx3 note3 = (Inr acct3, s3) \<longrightarrow>
      (\<exists>e a1. events s3 = events s @ [e]
        \<and> (if amount3 > 0
            then income_in_session E (accounts s) USER user3 \<bar>amount3\<bar> ct3
            else deduction_in_session E (accounts s) USER user3 ct3 \<bar>amount3\<bar>) = (Inr acct3, a1)
        \<and> accounts s3 (USER, user3) = Some acct3
        \<and> account_id e = acc_id acct3
        \<and> balance_after e = credits acct3 + free_credits acct3 + reward_credits acct3))
 \<and> (expense_message E s agent4 user4 msg4 start4 base4 pct4 owner4 = (Inr acct4, s4) \<longrightarrow>
      (\<exists>e a1 ct. events s4 = events s @ [e]
        \<and> expense_in_session E (accounts s) USER user4 (total_amount e) = (Inr (acct4, ct), a1)
        \<and> accounts s4 (USER, user4) = Some acct4
        \<and> account_id e = acc_id acct4
        \<and> balance_after e = credits acct4 + free_credits acct4 + reward_credits acct4))"
proof (intro conjI impI)
  assume "recharge E s user1 amount1 tx1 note1 = (Inr acct1, s1)"
  with assms(1,2) show "\<exists>e a1. events s1 = events s @ [e]
        \<and> income_in_session E (accounts s) USER user1 amount1 PERMANENT = (Inr acct1, a1)
        \<and> accounts s1 (USER, user1) = Some acct1
        \<and> account_id e = acc_id acct1
        \<and> balance_after e = credits acct1 + free_credits acct1 + reward_credits acct1"
    by (rule recharge_balance_after)
next
  assume "reward E s user2 amount2 tx2 note2 = (Inr acct2, s2)"
  with assms(1,2) show "\<exists>e a1. events s2 = events s @ [e]
        \<and> income_in_session E (accounts s) USER user2 amount2 REWARD = (Inr acct2, a1)
        \<and> accounts s2 (USER, user2) = Some acct2
        \<and> account_id e = acc_id acct2
        \<and> balance_after e = credits acct2 + free_credits acct2 + reward_credits acct2"
    by (rule reward_balance_after)
next
  assume "adjustment E s user3 ct3 amount3 tx3 note3 = (Inr acct3, s3)"
  with assms(1,2) show "\<exists>e a1. events s3 = events s @ [e]
        \<and> (if amount3 > 0
            then income_in_session E (accounts s) USER user3 \<bar>amount3\<bar> ct3
            else deduction_in_session E (accounts s) USER user3 ct3 \<bar>amount3\<bar>) = (Inr acct3, a1)
        \<and> accounts s3 (USER, user3) = Some acct3
        \<and> account_id e = acc_id acct3
        \<and> balance_after e = credits acct3 + free_credits acct3 + reward_credits acct3"
    by (rule adjustment_balance_after)
next
  assume "expense_message E s agent4 user4 msg4 start4 base4 pct4 owner4 = (Inr acct4, s4)"
  with assms(1,3) show "\<exists>e a1 ct. events s4 = events s @ [e]
        \<and> expense_in_session E (accounts s) USER user4 (total_amount e) = (Inr (acct4, ct), a1)
        \<and> accounts s4 (USER, user4) = Some acct4
        \<and> account_id e = acc_id acct4
        \<and> balance_after e = credits acct4 + free_credits acct4 + reward_credits acct4"
    by (rule expense_message_balance_after)
qed

theorem balance_after_of_user_account_witness:
  "\<exists>acct1 s1 e1 acct2 s2 e2 acct3 s3 e3 acct4 s4 e4.
      recharge example_env scenario3_session ''U1'' 100 ''T1'' None = (Inr acct1, s1)
    \<and> events s1 = [e1] \<and> accounts s1 (USER, ''U1'') = Some acct1
    \<and> account_id e1 = acc_id acct1
    \<and> balance_after e1 = credits acct1 + free_credits acct1 + reward_credits acct1
    \<and> reward example_env scenario3_session ''U1'' 5 ''T2'' None = (Inr acct2, s2)
    \<and> events s2 = [e2] \<and> accounts s2 (USER, ''U1'') = Some acct2
    \<and> account_id e2 = acc_id acct2
    \<and> balance_after e2 = credits acct2 + free_credits acct2 + reward_credits acct2
    \<and> adjustment example_env scenario3_session ''U1'' REWARD (- 2) ''T3'' ''claw back''
        = (Inr acct3, s3)
    \<and> events s3 = [e3] \<and> accounts s3 (USER, ''U1'') = Some acct3
    \<and> account_id e3 = acc_id acct3
    \<and> balance_after e3 = credits acct3 + free_credits acct3 + reward_credits acct3
    \<and> expense_message example_env scenario3_session ''A1'' ''U1'' ''M1'' ''M0'' 4 (1 / 2) ''U2''
        = (Inr acct4, s4)
    \<and> events s4 = [e4] \<and> accounts s4 (USER, ''U1'') = Some acct4
    \<and> account_id e4 = acc_id acct4
    \<and> balance_after e4 = credits acct4 + free_credits acct4 + reward_credits acct4"
proof -
  have inc: "\<forall>t owner oid x c a t'.
      income_in_session example_env t owner oid x c = (Inr a, t')
      \<longrightarrow> writes_own_row t owner oid a t'"
    by (simp add: example_env_def spec_env_def) (blast intro: spec_income_writes_own_row)
  have ded: "\<forall>t owner oid c x a t'.
      deduction_in_session example_env t owner oid c x = (Inr a, t')
      \<longrightarrow> writes_own_row t owner oid a t'"
    by (simp add: example_env_def spec_env_def) (blast intro: spec_deduction_writes_own_row)
  have exp: "\<forall>t owner oid x a c t'.
      expense_in_session example_env t owner oid x = (Inr (a, c), t')
      \<longrightarrow> writes_own_row t owner oid a t'"
    by (simp add: example_env_def spec_env_def) (blast intro: spec_expense_writes_own_row)
  have ev: "events scenario3_session = []"
    by (simp add: scenario3_session_def)
  obtain acct1 s1 where
    r1: "recharge example_env scenario3_session ''U1'' 100 ''T1'' None = (Inr acct1, s1)"
    by (simp add: recharge_def run_defs)
  obtain acct2 s2 where
    r2: "reward example_env scenario3_session ''U1'' 5 ''T2'' None = (Inr acct2, s2)"
    by (simp add: reward_def run_defs)
  obtain acct3 s3 where
    r3: "adjustment example_env scenario3_session ''U1'' REWARD (- 2) ''T3'' ''claw back''
          = (Inr acct3, s3)"
    by (simp add: adjustment_def run_defs)
  obtain acct4 s4 where
    r4: "expense_message example_env scenario3_session ''A1'' ''U1'' ''M1'' ''M0'' 4 (1 / 2)
          ''U2'' = (Inr acct4, s4)"
    by (simp add: expense_message_def run_defs)
  note all = balance_after_of_user_account[OF inc ded exp, of scenario3_session
      "''U1''" 100 "''T1''" None acct1 s1
      "''U1''" 5 "''T2''" None acct2 s2
      "''U1''" REWARD "- 2" "''T3''" "''claw back''" acct3 s3
      "''A1''" "''U1''" "''M1''" "''M0''" 4 "1 / 2" "''U2''" acct4 s4]
  from all r1 obtain e1 where c1: "events s1 = [e1] \<and> accounts s1 (USER, ''U1'') = Some acct1
      \<and> account_id e1 = acc_id acct1
      \<and> balance_after e1 = credits acct1 + free_credits acct1 + reward_credits acct1"
    unfolding ev by auto
  from all r2 obtain e2 where c2: "events s2 = [e2] \<and> accounts s2 (USER, ''U1'') = Some acct2
      \<and> account_id e2 = acc_id acct2
      \<and> balance_after e2 = credits acct2 + free_credits acct2 + reward_credits acct2"
    unfolding ev by auto
  from all r3 obtain e3 where c3: "events s3 = [e3] \<and> accounts s3 (USER, ''U1'') = Some acct3
      \<and> account_id e3 = acc_id acct3
      \<and> balance_after e3 = credits acct3 + free_credits acct3 + reward_credits acct3"
    unfolding ev by auto
  from all r4 obtain e4 where c4: "events s4 = [e4] \<and> accounts s4 (USER, ''U1'') = Some acct4
      \<and> account_id e4 = acc_id acct4
      \<and> balance_after e4 = credits acct4 + free_credits acct4 + reward_credits acct4"
    unfolding ev by auto
  from r1 c1 r2 c2 r3 c3 r4 c4 show ?thesis by blast
qed

subsection \<open>Listing the events of a user\<close>

lemma page_is_take:
  assumes "0 \<le> limit"
  shows "py_slice_to limit (take (nat (limit + 1)) xs) = take (nat limit) xs"
  using assms by (simp add: py_slice_to_def min_def)

lemma has_more_iff:
  assumes "0 \<le> limit"
  shows "(int (length (take (nat (limit + 1)) xs)) > limit) \<longleftrightarrow> int (length xs) > limit"
  using assms by auto

lemma desc_sorted:
  assumes "distinct (map f xs)"
  shows "sorted_wrt (\<lambda>a b. f b < f a) (rev (sort_key f xs))"
proof -
  have "sorted (map f (sort_key f xs))" by simp
  moreover have "distinct (map f (sort_key f xs))"
    using assms by (simp add: distinct_map)
  ultimately have "sorted_wrt (<) (map f (sort_key f xs))"
    by (simp add: strict_sorted_iff)
  then show ?thesis
    by (simp add: sorted_wrt_map sorted_wrt_rev)
qed

lemma distinct_matching:
  "distinct (map ev_id evs) \<Longrightarrow> distinct (map ev_id (matching_events evs acc dir cursor et))"
  unfolding matching_events_def by (rule distinct_map_filter)

lemma matching_events_sound:
  assumes "e \<in> set (matching_events evs acc dir cursor et)"
  shows "e \<in> set evs \<and> account_id e = acc \<and> direction e = dir
    \<and> (\<forall>t. et = Some t \<longrightarrow> event_type e = t)
    \<and> (\<forall>c. cursor = Some c \<and> c \<noteq> [] \<longrightarrow> ev_id e < c)"
  using assms unfolding matching_events_def by (auto split: option.splits if_splits)

lemma list_page_eq:
  assumes "0 \<le> limit" and "get_in_session E (accounts s) USER user_id = Some account"
  shows "list_credit_events_by_user E s user_id dir cursor limit et =
    (let page = take (nat limit)
        (rev (sort_key ev_id (matching_events (events s) (acc_id account) dir cursor et)))
     in (page,
         if page \<noteq> [] then Some (ev_id (last page)) else None,
         int (length (matching_events (events s) (acc_id account) dir cursor et)) > limit))"
  using assms(2)
  by (simp add: list_credit_events_by_user_def Let_def page_is_take[OF assms(1)]
      has_more_iff[OF assms(1)] del: length_take)

lemma sorted_wrt_take_drop:
  assumes "sorted_wrt R xs" and "x \<in> set (take n xs)" and "y \<in> set xs" and "y \<notin> set (take n xs)"
  shows "R x y"
proof -
  from assms(3,4) have "y \<in> set (drop n xs)"
    by (metis Un_iff append_take_drop_id set_append)
  moreover from assms(1) have "sorted_wrt R (take n xs @ drop n xs)" by simp
  then have "\<forall>a \<in> set (take n xs). \<forall>b \<in> set (drop n xs). R a b"
    unfolding sorted_wrt_append by blast
  ultimately show ?thesis using assms(2) by blast
qed

text \<open>
  C9. Let \<open>0 \<le> limit\<close> and let the event ids be unique (\<open>id\<close> is the primary key). If the
  user's account does not exist, the function returns \<open>([], None, False)\<close>. If it exists,
  the page returned has at most \<open>limit\<close> events; each is an event of the ledger on the
  user's account with the given direction, of the given type when \<open>event_type\<close> is given,
  and with \<open>id < cursor\<close> when a cursor is given (the source tests \<^verbatim>\<open>if cursor\<close>, so the
  empty string counts as no cursor); the ids on the page decrease strictly; \<open>has_more\<close> is
  true exactly when more than \<open>limit\<close> events match; the page holds \<open>limit\<close> events, or all
  matching ones if they are fewer; every matching event left out has a smaller id than
  every event on the page; and \<open>next_cursor\<close> is the id of the last event on the page.
\<close>

theorem list_credit_events_by_user_page:
  assumes "0 \<le> limit" and "distinct (map ev_id (events s))"
  shows
    "(get_in_session E (accounts s) USER user_id = None \<longrightarrow>
        list_credit_events_by_user E s user_id dir cursor limit et = ([], None, False))
   \<and> (get_in_session E (accounts s) USER user_id = Some account
        \<and> list_credit_events_by_user E s user_id dir cursor limit et
            = (page, next_cursor, has_more) \<longrightarrow>
        int (length page) \<le> limit
      \<and> (\<forall>e \<in> set page. e \<in> set (events s) \<and> account_id e = acc_id account
            \<and> direction e = dir
            \<and> (\<forall>t. et = Some t \<longrightarrow> event_type e = t)
            \<and> (\<forall>c. cursor = Some c \<and> c \<noteq> [] \<longrightarrow> ev_id e < c))
      \<and> sorted_wrt (\<lambda>a b. ev_id b < ev_id a) page
      \<and> (has_more \<longleftrightarrow>
           int (length (matching_events (events s) (acc_id account) dir cursor et)) > limit)
      \<and> length page
           = min (nat limit)
               (length (matching_events (events s) (acc_id account) dir cursor et))
      \<and> (\<forall>e \<in> set (matching_events (events s) (acc_id account) dir cursor et).
            e \<notin> set page \<longrightarrow> (\<forall>r \<in> set page. ev_id e < ev_id r))
      \<and> next_cursor = (if page \<noteq> [] then Some (ev_id (last page)) else None))"
proof (intro conjI impI)
  assume "get_in_session E (accounts s) USER user_id = None"
  then show "list_credit_events_by_user E s user_id dir cursor limit et = ([], None, False)"
    by (simp add: list_credit_events_by_user_def)
next
  let ?M = "matching_events (events s) (acc_id account) dir cursor et"
  let ?all = "rev (sort_key ev_id ?M)"
  assume h: "get_in_session E (accounts s) USER user_id = Some account
        \<and> list_credit_events_by_user E s user_id dir cursor limit et
            = (page, next_cursor, has_more)"
  with list_page_eq[OF assms(1), of E s user_id account dir cursor et]
  have page: "page = take (nat limit) ?all"
    and nc: "next_cursor = (if page \<noteq> [] then Some (ev_id (last page)) else None)"
    and hm: "has_more \<longleftrightarrow> int (length ?M) > limit"
    by (simp_all add: Let_def)
  have sorted_all: "sorted_wrt (\<lambda>a b. ev_id b < ev_id a) ?all"
    by (rule desc_sorted[OF distinct_matching[OF assms(2)]])
  have set_all: "set ?all = set ?M" by simp
  show "int (length page) \<le> limit" using assms(1) page by simp
  show "\<forall>e \<in> set page. e \<in> set (events s) \<and> account_id e = acc_id account
            \<and> direction e = dir
            \<and> (\<forall>t. et = Some t \<longrightarrow> event_type e = t)
            \<and> (\<forall>c. cursor = Some c \<and> c \<noteq> [] \<longrightarrow> ev_id e < c)"
  proof
    fix e assume "e \<in> set page"
    then have "e \<in> set ?all" unfolding page by (rule in_set_takeD)
    then have "e \<in> set ?M" by simp
    then show "e \<in> set (events s) \<and> account_id e = acc_id account
            \<and> direction e = dir
            \<and> (\<forall>t. et = Some t \<longrightarrow> event_type e = t)
            \<and> (\<forall>c. cursor = Some c \<and> c \<noteq> [] \<longrightarrow> ev_id e < c)"
      by (rule matching_events_sound)
  qed
  show "sorted_wrt (\<lambda>a b. ev_id b < ev_id a) page"
    unfolding page using sorted_all by (rule sorted_wrt_take)
  show "has_more \<longleftrightarrow> int (length ?M) > limit" by (rule hm)
  show "length page = min (nat limit) (length ?M)"
    unfolding page by (simp add: min.commute)
  show "\<forall>e \<in> set ?M. e \<notin> set page \<longrightarrow> (\<forall>r \<in> set page. ev_id e < ev_id r)"
  proof (intro ballI impI)
    fix e r assume "e \<in> set ?M" and "e \<notin> set page" and "r \<in> set page"
    then have "r \<in> set (take (nat limit) ?all)" "e \<in> set ?all"
      "e \<notin> set (take (nat limit) ?all)"
      unfolding page by simp_all
    with sorted_wrt_take_drop[OF sorted_all] show "ev_id e < ev_id r" by blast
  qed
  show "next_cursor = (if page \<noteq> [] then Some (ev_id (last page)) else None)" by (rule nc)
qed

theorem list_credit_events_by_user_page_witness:
  "list_credit_events_by_user example_env listing_session ''U9'' INCOME None 2 None
      = ([], None, False)
   \<and> (\<exists>page next_cursor.
        list_credit_events_by_user example_env listing_session ''U1'' INCOME None 2 None
          = (page, next_cursor, True)
      \<and> length page = 2
      \<and> sorted_wrt (\<lambda>a b. ev_id b < ev_id a) page
      \<and> (\<forall>e \<in> set page. e \<in> set (events listing_session) \<and> direction e = INCOME))"
proof -
  have lim: "(0::int) \<le> 2" by simp
  have ids: "distinct (map ev_id (events listing_session))"
    by (simp add: listing_session_def example_event_def)
  have none: "get_in_session example_env (accounts listing_session) USER ''U9'' = None"
    by (simp add: run_defs listing_session_def)
  obtain account where some:
    "get_in_session example_env (accounts listing_session) USER ''U1'' = Some account"
    and acc: "acc_id account = ''user-U1''"
    by (simp add: run_defs listing_session_def)
  have m: "length (matching_events (events listing_session) ''user-U1'' INCOME None None) = 3"
    by (simp add: matching_events_def listing_session_def example_event_def)
  obtain page next_cursor has_more where run:
    "list_credit_events_by_user example_env listing_session ''U1'' INCOME None 2 None
      = (page, next_cursor, has_more)"
    by (metis prod_cases3)
  from list_credit_events_by_user_page[OF lim ids, where E = example_env and user_id = "''U9''"
      and dir = INCOME and cursor = None and et = None]
    none
  have c1: "list_credit_events_by_user example_env listing_session ''U9'' INCOME None 2 None
      = ([], None, False)"
    by blast
  from list_credit_events_by_user_page[OF lim ids, where E = example_env and user_id = "''U1''"
      and account = account and dir = INCOME and cursor = None and et = None and page = page
      and next_cursor = next_cursor and has_more = has_more] some run
  have c2: "sorted_wrt (\<lambda>a b. ev_id b < ev_id a) page
      \<and> (has_more \<longleftrightarrow> int (length (matching_events (events listing_session)
            (acc_id account) INCOME None None)) > 2)
      \<and> length page = min (nat 2) (length (matching_events (events listing_session)
            (acc_id account) INCOME None None))
      \<and> (\<forall>e \<in> set page. e \<in> set (events listing_session) \<and> direction e = INCOME)"
    by blast
  with m acc have "has_more" and "length page = 2" by simp_all
  with c2 run have "\<exists>page next_cursor.
        list_credit_events_by_user example_env listing_session ''U1'' INCOME None 2 None
          = (page, next_cursor, True)
      \<and> length page = 2
      \<and> sorted_wrt (\<lambda>a b. ev_id b < ev_id a) page
      \<and> (\<forall>e \<in> set page. e \<in> set (events listing_session) \<and> direction e = INCOME)"
    by auto
  with c1 show ?thesis by (rule conjI)
qed

subsection \<open>Looking an event up by its upstream transaction id\<close>

lemma fetch_not_found:
  "(fetch_credit_event_by_upstream_tx_id s tx = Inl (HTTPException 404))
      \<longleftrightarrow> (\<forall>e \<in> set (events s). upstream_tx_id e \<noteq> tx)"
proof (cases "filter (\<lambda>e. upstream_tx_id e = tx) (events s)")
  case Nil
  then show ?thesis
    by (auto simp: fetch_credit_event_by_upstream_tx_id_def filter_empty_conv)
next
  case (Cons r rest)
  then have "r \<in> set (filter (\<lambda>e. upstream_tx_id e = tx) (events s))" by simp
  then have "r \<in> set (events s) \<and> upstream_tx_id r = tx" by simp
  with Cons show ?thesis
    by (auto simp: fetch_credit_event_by_upstream_tx_id_def)
qed

lemma fetch_found:
  assumes "fetch_credit_event_by_upstream_tx_id s tx = Inr e"
  shows "\<exists>before after. events s = before @ e # after \<and> upstream_tx_id e = tx
        \<and> (\<forall>x \<in> set before. upstream_tx_id x \<noteq> tx)"
proof -
  from assms obtain rest where "filter (\<lambda>e. upstream_tx_id e = tx) (events s) = e # rest"
    by (auto simp: fetch_credit_event_by_upstream_tx_id_def split: list.splits)
  then show ?thesis
    by (auto simp: filter_eq_Cons_iff)
qed

lemma fetch_total:
  "fetch_credit_event_by_upstream_tx_id s tx = Inl (HTTPException 404)
    \<or> (\<exists>e. fetch_credit_event_by_upstream_tx_id s tx = Inr e)"
  by (cases "filter (\<lambda>e. upstream_tx_id e = tx) (events s)")
    (simp_all add: fetch_credit_event_by_upstream_tx_id_def)

lemma fetch_one_of_two:
  assumes a: "a \<in> set (events s)" "upstream_type a = API" "upstream_tx_id a = tx"
    and b: "b \<in> set (events s)" "upstream_type b = EXECUTOR" "upstream_tx_id b = tx"
    and uq: "\<forall>x \<in> set (events s). \<forall>y \<in> set (events s).
            upstream_type x = upstream_type y \<and> upstream_tx_id x = upstream_tx_id y \<longrightarrow> x = y"
  shows "fetch_credit_event_by_upstream_tx_id s tx = Inr a
        \<or> fetch_credit_event_by_upstream_tx_id s tx = Inr b"
proof -
  from a have "\<not> (\<forall>e \<in> set (events s). upstream_tx_id e \<noteq> tx)" by auto
  then have "fetch_credit_event_by_upstream_tx_id s tx \<noteq> Inl (HTTPException 404)"
    by (simp only: fetch_not_found not_False_eq_True)
  with fetch_total[of s tx] obtain r where
    r: "fetch_credit_event_by_upstream_tx_id s tx = Inr r" by auto
  from fetch_found[OF r] have rin: "r \<in> set (events s)" and rtx: "upstream_tx_id r = tx"
    by auto
  have "r = a \<or> r = b"
  proof (cases "upstream_type r")
    case API
    from uq rin have "\<forall>y \<in> set (events s).
        upstream_type r = upstream_type y \<and> upstream_tx_id r = upstream_tx_id y \<longrightarrow> r = y"
      by (rule bspec)
    from this a(1) have "upstream_type r = upstream_type a \<and> upstream_tx_id r = upstream_tx_id a
        \<longrightarrow> r = a"
      by (rule bspec)
    with API a rtx show ?thesis by simp
  next
    case EXECUTOR
    from uq rin have "\<forall>y \<in> set (events s).
        upstream_type r = upstream_type y \<and> upstream_tx_id r = upstream_tx_id y \<longrightarrow> r = y"
      by (rule bspec)
    from this b(1) have "upstream_type r = upstream_type b \<and> upstream_tx_id r = upstream_tx_id b
        \<longrightarrow> r = b"
      by (rule bspec)
    with EXECUTOR b rtx show ?thesis by simp
  qed
  with r show ?thesis by auto
qed

text \<open>
  C10. \<open>fetch_credit_event_by_upstream_tx_id\<close> raises the 404 exception exactly when no
  event carries the given \<open>upstream_tx_id\<close>, whatever the upstream types. When it returns
  an event, that is the first event in the order of the table that carries the id. If the
  ledger holds an API event and an EXECUTOR event with the same id (and, as the unique
  index has it, no two events with the same type and id), it returns one of the two.
\<close>

theorem fetch_by_upstream_tx_id_only:
  "(fetch_credit_event_by_upstream_tx_id s tx = Inl (HTTPException 404)
      \<longleftrightarrow> (\<forall>e \<in> set (events s). upstream_tx_id e \<noteq> tx))
 \<and> (fetch_credit_event_by_upstream_tx_id s tx = Inr e \<longrightarrow>
      (\<exists>before after. events s = before @ e # after \<and> upstream_tx_id e = tx
        \<and> (\<forall>x \<in> set before. upstream_tx_id x \<noteq> tx)))
 \<and> (a \<in> set (events s) \<and> upstream_type a = API \<and> upstream_tx_id a = tx
      \<and> b \<in> set (events s) \<and> upstream_type b = EXECUTOR \<and> upstream_tx_id b = tx
      \<and> (\<forall>x \<in> set (events s). \<forall>y \<in> set (events s).
            upstream_type x = upstream_type y \<and> upstream_tx_id x = upstream_tx_id y \<longrightarrow> x = y)
    \<longrightarrow> fetch_credit_event_by_upstream_tx_id s tx = Inr a
        \<or> fetch_credit_event_by_upstream_tx_id s tx = Inr b)"
proof (intro conjI impI)
  show "(fetch_credit_event_by_upstream_tx_id s tx = Inl (HTTPException 404))
      \<longleftrightarrow> (\<forall>e \<in> set (events s). upstream_tx_id e \<noteq> tx)"
    by (rule fetch_not_found)
next
  assume "fetch_credit_event_by_upstream_tx_id s tx = Inr e"
  then show "\<exists>before after. events s = before @ e # after \<and> upstream_tx_id e = tx
        \<and> (\<forall>x \<in> set before. upstream_tx_id x \<noteq> tx)"
    by (rule fetch_found)
next
  assume h: "a \<in> set (events s) \<and> upstream_type a = API \<and> upstream_tx_id a = tx
      \<and> b \<in> set (events s) \<and> upstream_type b = EXECUTOR \<and> upstream_tx_id b = tx
      \<and> (\<forall>x \<in> set (events s). \<forall>y \<in> set (events s).
            upstream_type x = upstream_type y \<and> upstream_tx_id x = upstream_tx_id y \<longrightarrow> x = y)"
  show "fetch_credit_event_by_upstream_tx_id s tx = Inr a
        \<or> fetch_credit_event_by_upstream_tx_id s tx = Inr b"
    by (rule fetch_one_of_two) (use h in simp_all)
qed

theorem fetch_by_upstream_tx_id_only_witness:
  "(fetch_credit_event_by_upstream_tx_id listing_session ''T1''
        = Inr (example_event ''e1'' API ''T1'' ''user-U1'' INCOME)
      \<or> fetch_credit_event_by_upstream_tx_id listing_session ''T1''
        = Inr (example_event ''e2'' EXECUTOR ''T1'' ''user-U1'' INCOME))
   \<and> fetch_credit_event_by_upstream_tx_id listing_session ''T9'' = Inl (HTTPException 404)"
proof -
  let ?a = "example_event ''e1'' API ''T1'' ''user-U1'' INCOME"
  let ?b = "example_event ''e2'' EXECUTOR ''T1'' ''user-U1'' INCOME"
  let ?c = "example_event ''e3'' API ''T3'' ''user-U1'' INCOME"
  have evs: "events listing_session = [?a, ?b, ?c]"
    by (simp add: listing_session_def)
  have a: "upstream_type ?a = API \<and> upstream_tx_id ?a = ''T1''"
    by (simp add: example_event_def)
  have b: "upstream_type ?b = EXECUTOR \<and> upstream_tx_id ?b = ''T1''"
    by (simp add: example_event_def)
  have c: "upstream_type ?c = API \<and> upstream_tx_id ?c = ''T3''"
    by (simp add: example_event_def)
  have uq: "\<forall>x \<in> set (events listing_session). \<forall>y \<in> set (events listing_session).
      upstream_type x = upstream_type y \<and> upstream_tx_id x = upstream_tx_id y \<longrightarrow> x = y"
    unfolding evs using a b c by auto
  have h: "?a \<in> set (events listing_session) \<and> upstream_type ?a = API
      \<and> upstream_tx_id ?a = ''T1''
      \<and> ?b \<in> set (events listing_session) \<and> upstream_type ?b = EXECUTOR
      \<and> upstream_tx_id ?b = ''T1''
      \<and> (\<forall>x \<in> set (events listing_session). \<forall>y \<in> set (events listing_session).
            upstream_type x = upstream_type y \<and> upstream_tx_id x = upstream_tx_id y \<longrightarrow> x = y)"
    using a b uq by (simp add: evs)
  have none: "\<forall>e \<in> set (events listing_session). upstream_tx_id e \<noteq> ''T9''"
    unfolding evs using a b c by simp
  note both = fetch_by_upstream_tx_id_only[where s = listing_session and tx = "''T1''"
      and a = ?a and b = ?b]
  have c1: "fetch_credit_event_by_upstream_tx_id listing_session ''T1'' = Inr ?a
      \<or> fetch_credit_event_by_upstream_tx_id listing_session ''T1'' = Inr ?b"
    by (rule mp[OF conjunct2[OF conjunct2[OF both]] h])
  note miss = fetch_by_upstream_tx_id_only[where s = listing_session and tx = "''T9''"]
  have c2: "fetch_credit_event_by_upstream_tx_id listing_session ''T9''
      = Inl (HTTPException 404)"
    using conjunct1[OF miss] none by (rule iffD2)
  from c1 c2 show ?thesis by (rule conjI)
qed

subsection \<open>The orchestrators on the helpers of the specification\<close>

lemmas spec_helper_defs =
  spec_env_def spec_income_in_session_def spec_deduction_in_session_def
  spec_expense_in_session_def spec_get_or_create_in_session_def spec_get_in_session_def
  spec_check_upstream_tx_id_exists_def get_or_create_def daily_refill_def pool_add_def
  pool_def Let_def list_ex_iff

subsection \<open>Recharge\<close>

text \<open>
  C2. With the helpers of the specification, \<open>recharge\<close> with a positive amount and an
  upstream transaction id no API event carries succeeds. The user's \<open>credits\<close> are the
  former ones (0 for a user without account) plus the amount; the \<open>credits\<close> of the
  platform account RECHARGE are the former ones (0 when the account is new) minus the
  amount, with no lower bound, so on a fresh ledger they become negative. One event is
  appended (RECHARGE, INCOME, \<open>total_amount = amount\<close>, PERMANENT, \<open>balance_after\<close> the
  three pools of the user) and exactly two legs: a CREDIT of the amount on the user and a
  DEBIT of the amount on the platform account.
\<close>

theorem recharge_effect:
  assumes "0 < amount"
    and "\<forall>e \<in> set (events s). \<not> (upstream_type e = API \<and> upstream_tx_id e = tx)"
  shows "\<exists>ua pa e t1 t2 s'.
      recharge (spec_env xid fee new_id now) s user_id amount tx note = (Inr ua, s')
    \<and> accounts s' (USER, user_id) = Some ua
    \<and> credits ua
        = (case accounts s (USER, user_id) of None \<Rightarrow> 0 | Some a \<Rightarrow> credits a) + amount
    \<and> (accounts s (USER, user_id) = None \<longrightarrow> free_credits ua = 0 \<and> reward_credits ua = 0)
    \<and> accounts s' (PLATFORM, DEFAULT_PLATFORM_ACCOUNT_RECHARGE) = Some pa
    \<and> credits pa
        = (case accounts s (PLATFORM, DEFAULT_PLATFORM_ACCOUNT_RECHARGE) of
            None \<Rightarrow> 0 | Some a \<Rightarrow> credits a) - amount
    \<and> events s' = events s @ [e]
    \<and> event_type e = EventType_RECHARGE \<and> direction e = INCOME
    \<and> total_amount e = amount \<and> credit_type e = PERMANENT
    \<and> account_id e = acc_id ua
    \<and> balance_after e = credits ua + free_credits ua + reward_credits ua
    \<and> transactions s' = transactions s @ [t1, t2]
    \<and> event_id t1 = ev_id e \<and> credit_debit t1 = CREDIT \<and> change_amount t1 = amount
    \<and> tx_account_id t1 = acc_id ua \<and> tx_credit_type t1 = PERMANENT
    \<and> event_id t2 = ev_id e \<and> credit_debit t2 = DEBIT \<and> change_amount t2 = amount
    \<and> tx_account_id t2 = acc_id pa \<and> tx_credit_type t2 = PERMANENT"
  using assms unfolding recharge_def
  by (auto simp: spec_helper_defs split: option.splits)


theorem recharge_effect_witness:
  "\<exists>ua pa e t1 t2 s'.
      recharge example_env fresh_session ''U1'' 100 ''T1'' None = (Inr ua, s')
    \<and> accounts s' (USER, ''U1'') = Some ua \<and> credits ua = 100
    \<and> accounts s' (PLATFORM, ''RECHARGE'') = Some pa \<and> credits pa = - 100
    \<and> events s' = [e] \<and> direction e = INCOME \<and> total_amount e = 100
    \<and> credit_type e = PERMANENT \<and> balance_after e = 100
    \<and> transactions s' = [t1, t2]
    \<and> credit_debit t1 = CREDIT \<and> change_amount t1 = 100 \<and> tx_account_id t1 = acc_id ua
    \<and> credit_debit t2 = DEBIT \<and> change_amount t2 = 100 \<and> tx_account_id t2 = acc_id pa"
proof -
  have pos: "(0::rat) < 100" by simp
  have nodup: "\<forall>e \<in> set (events fresh_session).
      \<not> (upstream_type e = API \<and> upstream_tx_id e = ''T1'')"
    by (simp add: fresh_session_def)
  have start: "accounts fresh_session (USER, ''U1'') = None
      \<and> accounts fresh_session (PLATFORM, DEFAULT_PLATFORM_ACCOUNT_RECHARGE) = None
      \<and> events fresh_session = [] \<and> transactions fresh_session = []
      \<and> DEFAULT_PLATFORM_ACCOUNT_RECHARGE = ''RECHARGE''"
    by (simp add: fresh_session_def DEFAULT_PLATFORM_ACCOUNT_RECHARGE_def)
  have ex: "\<exists>ua pa e t1 t2 s'.
      recharge example_env fresh_session ''U1'' 100 ''T1'' None = (Inr ua, s')
    \<and> accounts s' (USER, ''U1'') = Some ua
    \<and> credits ua
        = (case accounts fresh_session (USER, ''U1'') of None \<Rightarrow> 0 | Some a \<Rightarrow> credits a)
          + 100
    \<and> (accounts fresh_session (USER, ''U1'') = None \<longrightarrow>
          free_credits ua = 0 \<and> reward_credits ua = 0)
    \<and> accounts s' (PLATFORM, DEFAULT_PLATFORM_ACCOUNT_RECHARGE) = Some pa
    \<and> credits pa
        = (case accounts fresh_session (PLATFORM, DEFAULT_PLATFORM_ACCOUNT_RECHARGE) of
            None \<Rightarrow> 0 | Some a \<Rightarrow> credits a) - 100
    \<and> events s' = events fresh_session @ [e]
    \<and> event_type e = EventType_RECHARGE \<and> direction e = INCOME
    \<and> total_amount e = 100 \<and> credit_type e = PERMANENT
    \<and> account_id e = acc_id ua
    \<and> balance_after e = credits ua + free_credits ua + reward_credits ua
    \<and> transactions s' = transactions fresh_session @ [t1, t2]
    \<and> event_id t1 = ev_id e \<and> credit_debit t1 = CREDIT \<and> change_amount t1 = 100
    \<and> tx_account_id t1 = acc_id ua \<and> tx_credit_type t1 = PERMANENT
    \<and> event_id t2 = ev_id e \<and> credit_debit t2 = DEBIT \<and> change_amount t2 = 100
    \<and> tx_account_id t2 = acc_id pa \<and> tx_credit_type t2 = PERMANENT"
    unfolding example_env_def
    by (rule recharge_effect[OF pos nodup])
  then obtain ua pa e t1 t2 s' where
    r: "recharge example_env fresh_session ''U1'' 100 ''T1'' None = (Inr ua, s')"
    and u: "accounts s' (USER, ''U1'') = Some ua"
      "credits ua
        = (case accounts fresh_session (USER, ''U1'') of None \<Rightarrow> 0 | Some a \<Rightarrow> credits a)
          + 100"
      "accounts fresh_session (USER, ''U1'') = None \<longrightarrow>
          free_credits ua = 0 \<and> reward_credits ua = 0"
    and p: "accounts s' (PLATFORM, DEFAULT_PLATFORM_ACCOUNT_RECHARGE) = Some pa"
      "credits pa
        = (case accounts fresh_session (PLATFORM, DEFAULT_PLATFORM_ACCOUNT_RECHARGE) of
            None \<Rightarrow> 0 | Some a \<Rightarrow> credits a) - 100"
    and e: "events s' = events fresh_session @ [e]" "direction e = INCOME"
      "total_amount e = 100" "credit_type e = PERMANENT"
      "balance_after e = credits ua + free_credits ua + reward_credits ua"
    and l: "transactions s' = transactions fresh_session @ [t1, t2]"
      "credit_debit t1 = CREDIT" "change_amount t1 = 100" "tx_account_id t1 = acc_id ua"
      "credit_debit t2 = DEBIT" "change_amount t2 = 100" "tx_account_id t2 = acc_id pa"
    by (elim exE conjE)
  from u start have u': "credits ua = 100" "free_credits ua = 0" "reward_credits ua = 0"
    by simp_all
  from p start have p': "accounts s' (PLATFORM, ''RECHARGE'') = Some pa" "credits pa = - 100"
    by simp_all
  from e start u' have e': "events s' = [e]" "balance_after e = 100" by simp_all
  from l start have l': "transactions s' = [t1, t2]" by simp
  from r u(1) u'(1) p' e' e(2,3,4) l' l(2-7) show ?thesis by blast
qed

subsection \<open>Negative adjustment\<close>

text \<open>
  C4, as stated, fails. On the ledger of scenario 3 the user holds \<open>reward_credits = 2\<close>.
  An adjustment of \<open>-5\<close> on REWARD does not raise InsufficientFunds: it succeeds and
  leaves the pool at \<open>-3\<close>.
\<close>

theorem adjustment_below_zero:
  "fst (adjustment example_env scenario3_session ''U1'' REWARD (- 5) ''T2'' ''claw back'')
      = Inr \<lparr>acc_id = ''user-U1'', credits = 10, free_credits = 3, reward_credits = - 3,
              free_quota = 0, refill_amount = 0, last_refill_at = 0\<rparr>
   \<and> accounts (snd (adjustment example_env scenario3_session ''U1'' REWARD (- 5) ''T2''
          ''claw back'')) (USER, ''U1'')
      = Some \<lparr>acc_id = ''user-U1'', credits = 10, free_credits = 3, reward_credits = - 3,
               free_quota = 0, refill_amount = 0, last_refill_at = 0\<rparr>"
  by (simp add: adjustment_def run_defs)

text \<open>
  C4, amended. With the helpers of the specification, \<open>adjustment\<close> with a negative
  amount, a note and an upstream transaction id no API event carries always succeeds: it
  subtracts \<open>\<bar>amount\<bar>\<close> from the user's pool named by the credit type (as it stands
  after the daily refill), whatever that pool holds, so the pool may end at zero or below
  zero, and adds \<open>\<bar>amount\<bar>\<close> to the same pool of the platform account ADJUSTMENT. The
  event has direction EXPENSE, the user's leg is a DEBIT and the platform's a CREDIT.
\<close>

theorem negative_adjustment_effect:
  assumes "amount < 0" and "note \<noteq> []"
    and "\<forall>e \<in> set (events s). \<not> (upstream_type e = API \<and> upstream_tx_id e = tx)"
  shows "\<exists>ua pa e t1 t2 s'.
      adjustment (spec_env xid fee new_id now) s user_id ct amount tx note = (Inr ua, s')
    \<and> accounts s' (USER, user_id) = Some ua
    \<and> ua = pool_add ct amount
              (daily_refill now USER (fst (get_or_create new_id now (accounts s) USER user_id)))
    \<and> pool ct ua
        = pool ct (daily_refill now USER
                     (fst (get_or_create new_id now (accounts s) USER user_id))) - \<bar>amount\<bar>
    \<and> accounts s' (PLATFORM, DEFAULT_PLATFORM_ACCOUNT_ADJUSTMENT) = Some pa
    \<and> pool ct pa
        = (case accounts s (PLATFORM, DEFAULT_PLATFORM_ACCOUNT_ADJUSTMENT) of
            None \<Rightarrow> 0 | Some a \<Rightarrow> pool ct a) + \<bar>amount\<bar>
    \<and> events s' = events s @ [e]
    \<and> event_type e = EventType_ADJUSTMENT \<and> direction e = EXPENSE
    \<and> total_amount e = \<bar>amount\<bar> \<and> credit_type e = ct \<and> account_id e = acc_id ua
    \<and> transactions s' = transactions s @ [t1, t2]
    \<and> event_id t1 = ev_id e \<and> credit_debit t1 = DEBIT \<and> change_amount t1 = \<bar>amount\<bar>
    \<and> tx_account_id t1 = acc_id ua \<and> tx_credit_type t1 = ct
    \<and> event_id t2 = ev_id e \<and> credit_debit t2 = CREDIT \<and> change_amount t2 = \<bar>amount\<bar>
    \<and> tx_account_id t2 = acc_id pa \<and> tx_credit_type t2 = ct"
  using assms unfolding adjustment_def
  by (cases ct) (auto simp: spec_helper_defs split: option.splits)

theorem negative_adjustment_effect_witness:
  "\<exists>ua pa e s'.
      adjustment example_env scenario3_session ''U1'' REWARD (- 2) ''T2'' ''claw back''
        = (Inr ua, s')
    \<and> accounts s' (USER, ''U1'') = Some ua \<and> reward_credits ua = 0
    \<and> accounts s' (PLATFORM, ''ADJUSTMENT'') = Some pa \<and> reward_credits pa = 2
    \<and> events s' = [e] \<and> direction e = EXPENSE \<and> total_amount e = 2"
proof -
  have neg: "(- 2::rat) < 0" by simp
  have note_given: "''claw back'' \<noteq> []" by simp
  have nodup: "\<forall>e \<in> set (events scenario3_session).
      \<not> (upstream_type e = API \<and> upstream_tx_id e = ''T2'')"
    by (simp add: scenario3_session_def)
  have before: "pool REWARD (daily_refill 0 USER
        (fst (get_or_create example_account_id 0 (accounts scenario3_session) USER ''U1''))) = 2"
    by (simp add: pool_def daily_refill_def get_or_create_def scenario3_session_def)
  have start: "accounts scenario3_session (PLATFORM, DEFAULT_PLATFORM_ACCOUNT_ADJUSTMENT) = None
      \<and> events scenario3_session = []
      \<and> DEFAULT_PLATFORM_ACCOUNT_ADJUSTMENT = ''ADJUSTMENT''"
    by (simp add: scenario3_session_def DEFAULT_PLATFORM_ACCOUNT_ADJUSTMENT_def)
  from negative_adjustment_effect[OF neg note_given nodup, of example_xid "1 / 4"
      example_account_id 0 "''U1''" REWARD]
  obtain ua pa e s' where
    r: "adjustment (spec_env example_xid (1 / 4) example_account_id 0) scenario3_session ''U1''
          REWARD (- 2) ''T2'' ''claw back'' = (Inr ua, s')"
    and u: "accounts s' (USER, ''U1'') = Some ua"
      "pool REWARD ua = pool REWARD (daily_refill 0 USER
         (fst (get_or_create example_account_id 0 (accounts scenario3_session) USER ''U1'')))
         - \<bar>- 2\<bar>"
    and p: "accounts s' (PLATFORM, DEFAULT_PLATFORM_ACCOUNT_ADJUSTMENT) = Some pa"
      "pool REWARD pa
        = (case accounts scenario3_session (PLATFORM, DEFAULT_PLATFORM_ACCOUNT_ADJUSTMENT) of
            None \<Rightarrow> 0 | Some a \<Rightarrow> pool REWARD a) + \<bar>- 2\<bar>"
    and e: "events s' = events scenario3_session @ [e]" "direction e = EXPENSE"
      "total_amount e = \<bar>- 2\<bar>"
    by (elim exE conjE)
  from u(2) before have u': "reward_credits ua = 0" by (simp add: pool_def)
  from p start have p': "accounts s' (PLATFORM, ''ADJUSTMENT'') = Some pa"
    "reward_credits pa = 2"
    by (simp_all add: pool_def)
  from e start have e': "events s' = [e]" "total_amount e = 2" by simp_all
  from r have r': "adjustment example_env scenario3_session ''U1'' REWARD (- 2) ''T2''
      ''claw back'' = (Inr ua, s')"
    by (simp add: example_env_def)
  from r' u(1) u' p' e' e(2) show ?thesis by blast
qed

subsection \<open>Quota update for a user without account\<close>

text \<open>
  C6, as stated, fails. On the empty ledger there is no account for U1. Setting the
  daily quota of U1 to 10 does not raise AccountNotFound: it succeeds, and the ledger
  then holds a new account for U1 with zero balances and the quota.
\<close>

theorem quota_update_creates_account:
  "accounts fresh_session (USER, ''U1'') = None
   \<and> fst (update_daily_quota example_env fresh_session ''U1'' (Some 10) None [] ''raise'')
      = Inr \<lparr>acc_id = ''user-U1'', credits = 0, free_credits = 0, reward_credits = 0,
              free_quota = 10, refill_amount = 0, last_refill_at = 0\<rparr>
   \<and> accounts (snd (update_daily_quota example_env fresh_session ''U1'' (Some 10) None []
          ''raise'')) (USER, ''U1'')
      = Some \<lparr>acc_id = ''user-U1'', credits = 0, free_credits = 0, reward_credits = 0,
               free_quota = 10, refill_amount = 0, last_refill_at = 0\<rparr>"
  by (simp add: update_daily_quota_def run_defs)

lemma update_daily_quota_never_account_not_found:
  "fst (update_daily_quota (spec_env xid fee new_id now) s user_id fq ra tx note)
    \<noteq> Inl AccountNotFound"
  unfolding update_daily_quota_def
  by (auto simp: spec_helper_defs split: option.splits if_splits)

lemma update_daily_quota_on_new_account:
  assumes "accounts s (USER, user_id) = None" and "0 < q"
    and "ra = None \<or> (\<exists>r. ra = Some r \<and> 0 \<le> r \<and> r \<le> q)" and "note \<noteq> []"
  shows "\<exists>acct s'.
      update_daily_quota (spec_env xid fee new_id now) s user_id (Some q) ra tx note
        = (Inr acct, s')
    \<and> accounts s' (USER, user_id) = Some acct
    \<and> acct = \<lparr>acc_id = new_id USER user_id, credits = 0, free_credits = 0,
               reward_credits = 0, free_quota = q, refill_amount = effective ra 0,
               last_refill_at = now\<rparr>
    \<and> events s' = events s \<and> transactions s' = transactions s"
  using assms unfolding update_daily_quota_def
  by (auto simp: spec_helper_defs effective_def split: option.splits if_splits)

text \<open>
  C6, amended. Let the user have no account, with the helpers of the specification. Then
  \<open>update_daily_quota\<close> never raises AccountNotFound: it takes the account through
  \<open>get_or_create_in_session\<close>, which inserts a zeroed row. With a positive quota, a
  refill amount that is omitted or between 0 and the quota, and a note, it succeeds: the
  ledger then holds the new account of the user, with zero balances, the quota given and
  the refill amount given (0 when omitted), and no event or transaction is added.
\<close>

theorem update_daily_quota_missing_account:
  assumes "accounts s (USER, user_id) = None"
  shows
    "fst (update_daily_quota (spec_env xid fee new_id now) s user_id fq ra tx note)
        \<noteq> Inl AccountNotFound
   \<and> (0 < q \<and> (ra = None \<or> (\<exists>r. ra = Some r \<and> 0 \<le> r \<and> r \<le> q)) \<and> note \<noteq> [] \<longrightarrow>
        (\<exists>acct s'.
            update_daily_quota (spec_env xid fee new_id now) s user_id (Some q) ra tx note
              = (Inr acct, s')
          \<and> accounts s' (USER, user_id) = Some acct
          \<and> acct = \<lparr>acc_id = new_id USER user_id, credits = 0, free_credits = 0,
                     reward_credits = 0, free_quota = q, refill_amount = effective ra 0,
                     last_refill_at = now\<rparr>
          \<and> events s' = events s \<and> transactions s' = transactions s))"
proof (intro conjI impI)
  show "fst (update_daily_quota (spec_env xid fee new_id now) s user_id fq ra tx note)
        \<noteq> Inl AccountNotFound"
    by (rule update_daily_quota_never_account_not_found)
next
  assume h: "0 < q \<and> (ra = None \<or> (\<exists>r. ra = Some r \<and> 0 \<le> r \<and> r \<le> q)) \<and> note \<noteq> []"
  show "\<exists>acct s'.
            update_daily_quota (spec_env xid fee new_id now) s user_id (Some q) ra tx note
              = (Inr acct, s')
          \<and> accounts s' (USER, user_id) = Some acct
          \<and> acct = \<lparr>acc_id = new_id USER user_id, credits = 0, free_credits = 0,
                     reward_credits = 0, free_quota = q, refill_amount = effective ra 0,
                     last_refill_at = now\<rparr>
          \<and> events s' = events s \<and> transactions s' = transactions s"
    by (rule update_daily_quota_on_new_account[OF assms]) (use h in simp_all)
qed

theorem update_daily_quota_missing_account_witness:
  "accounts fresh_session (USER, ''U1'') = None
   \<and> fst (update_daily_quota example_env fresh_session ''U1'' (Some 10) None [] ''raise'')
        \<noteq> Inl AccountNotFound
   \<and> (\<exists>acct s'.
        update_daily_quota example_env fresh_session ''U1'' (Some 10) None [] ''raise''
          = (Inr acct, s')
      \<and> accounts s' (USER, ''U1'') = Some acct
      \<and> free_quota acct = 10 \<and> refill_amount acct = 0 \<and> credits acct = 0)"
proof -
  have missing: "accounts fresh_session (USER, ''U1'') = None"
    by (simp add: fresh_session_def)
  have ok: "(0::rat) < 10
      \<and> ((None::rat option) = None \<or> (\<exists>r. (None::rat option) = Some r \<and> 0 \<le> r \<and> r \<le> 10))
      \<and> ''raise'' \<noteq> []"
    by simp
  note both = update_daily_quota_missing_account[OF missing, of example_xid "1 / 4"
      example_account_id 0 "Some 10" None "[]" "''raise''" 10]
  from conjunct1[OF both]
  have c1: "fst (update_daily_quota example_env fresh_session ''U1'' (Some 10) None []
      ''raise'') \<noteq> Inl AccountNotFound"
    by (simp add: example_env_def)
  from mp[OF conjunct2[OF both] ok] obtain acct s' where
    r: "update_daily_quota (spec_env example_xid (1 / 4) example_account_id 0) fresh_session
          ''U1'' (Some 10) None [] ''raise'' = (Inr acct, s')"
    and a: "accounts s' (USER, ''U1'') = Some acct"
      "acct = \<lparr>acc_id = example_account_id USER ''U1'', credits = 0, free_credits = 0,
               reward_credits = 0, free_quota = 10, refill_amount = effective None 0,
               last_refill_at = 0\<rparr>"
    by (elim exE conjE)
  from a(2) have a': "free_quota acct = 10" "refill_amount acct = 0" "credits acct = 0"
    by (simp_all add: effective_def)
  from r have r': "update_daily_quota example_env fresh_session ''U1'' (Some 10) None []
      ''raise'' = (Inr acct, s')"
    by (simp add: example_env_def)
  from missing c1 r' a(1) a' show ?thesis by blast
qed

end
